theory Spec2Isabelle
  imports Complex_Main "HOL-Library.AList"
begin

section \<open>Strings\<close>

text \<open>
  JavaScript strings are modelled as \<^typ>\<open>string\<close>. Every string the guard, the
  classifier and the rewriter inspect is compared with ASCII literals only, so the
  character type of HOL and the code units of JavaScript agree on them.
\<close>

text \<open>\<^verbatim>\<open>s.startsWith(p)\<close>\<close>

definition startsWith :: "string \<Rightarrow> string \<Rightarrow> bool" where
  "startsWith s p = (take (length p) s = p)"

text \<open>\<^verbatim>\<open>s.includes(sub)\<close>: \<open>sub\<close> occurs at some position of \<open>s\<close>.\<close>

fun includes_str :: "string \<Rightarrow> string \<Rightarrow> bool" where
  "includes_str [] sub = (sub = [])"
| "includes_str (c # cs) sub = (startsWith (c # cs) sub \<or> includes_str cs sub)"

text \<open>
  Case folding of the \<^verbatim>\<open>i\<close> flag of a regular expression without the \<^verbatim>\<open>u\<close> flag: it
  never identifies a character outside ASCII with an ASCII letter, so on the letters of
  \<^verbatim>\<open>localhost\<close> it is the folding of \<^verbatim>\<open>A-Z\<close> onto \<^verbatim>\<open>a-z\<close>.
\<close>

definition toLowerASCII :: "char \<Rightarrow> char" where
  "toLowerASCII c =
     (case map_of (zip ''ABCDEFGHIJKLMNOPQRSTUVWXYZ'' ''abcdefghijklmnopqrstuvwxyz'') c of
        Some l \<Rightarrow> l
      | None \<Rightarrow> c)"

section \<open>The private-address guard\<close>

text \<open>
  \<^verbatim>\<open>isPrivateIP\<close> is the same function in \<^verbatim>\<open>api/index.js\<close>, \<^verbatim>\<open>server.js\<close>,
  \<^verbatim>\<open>outlet_backend/server.js\<close> and the direct-fetch server: eight regular expressions,
  all anchored at the start of the hostname, tried in order by
  \<^verbatim>\<open>privatePatterns.some(pattern => pattern.test(hostname))\<close>.
  Each pattern is the predicate on strings its regular expression decides.
\<close>

text \<open>\<^verbatim>\<open>/^localhost$/i\<close>\<close>

definition pat_localhost :: "string \<Rightarrow> bool" where
  "pat_localhost h = (map toLowerASCII h = ''localhost'')"

text \<open>\<^verbatim>\<open>/^127\./\<close>\<close>

definition pat_127 :: "string \<Rightarrow> bool" where
  "pat_127 h = startsWith h ''127.''"

text \<open>\<^verbatim>\<open>/^192\.168\./\<close>\<close>

definition pat_192_168 :: "string \<Rightarrow> bool" where
  "pat_192_168 h = startsWith h ''192.168.''"

text \<open>\<^verbatim>\<open>/^10\./\<close>\<close>

definition pat_10 :: "string \<Rightarrow> bool" where
  "pat_10 h = startsWith h ''10.''"

text \<open>\<^verbatim>\<open>/^172\.(1[6-9]|2[0-9]|3[0-1])\./\<close>\<close>

definition pat_172 :: "string \<Rightarrow> bool" where
  "pat_172 h =
     (startsWith h ''172.'' \<and>
      (case drop 4 h of
         d1 # d2 # dot # _ \<Rightarrow>
           ((d1 = CHR ''1'' \<and> d2 \<in> set ''6789'') \<or>
            (d1 = CHR ''2'' \<and> d2 \<in> set ''0123456789'') \<or>
            (d1 = CHR ''3'' \<and> d2 \<in> set ''01'')) \<and>
           dot = CHR ''.''
       | _ \<Rightarrow> False))"

text \<open>\<^verbatim>\<open>/^::1$/\<close>\<close>

definition pat_v6_loopback :: "string \<Rightarrow> bool" where
  "pat_v6_loopback h = (h = ''::1'')"

text \<open>\<^verbatim>\<open>/^fc00:/\<close>\<close>

definition pat_fc00 :: "string \<Rightarrow> bool" where
  "pat_fc00 h = startsWith h ''fc00:''"

text \<open>\<^verbatim>\<open>/^fe80:/\<close>\<close>

definition pat_fe80 :: "string \<Rightarrow> bool" where
  "pat_fe80 h = startsWith h ''fe80:''"

definition privatePatterns :: "(string \<Rightarrow> bool) list" where
  "privatePatterns =
     [pat_localhost, pat_127, pat_192_168, pat_10, pat_172,
      pat_v6_loopback, pat_fc00, pat_fe80]"

definition isPrivateIP :: "string \<Rightarrow> bool" where
  "isPrivateIP hostname = list_ex (\<lambda>pattern. pattern hostname) privatePatterns"

section \<open>Requests, responses and errors\<close>

text \<open>
  An inbound request as the handlers read it: \<^verbatim>\<open>req.method\<close>, \<^verbatim>\<open>req.query.url\<close>
  (\<open>None\<close> when the parameter is missing), \<^verbatim>\<open>req.headers[name]\<close> with the lower-case
  names Node gives them, and \<^verbatim>\<open>req.protocol\<close>.
\<close>

record request =
  req_method :: string
  query_url :: "string option"
  headers :: "string \<Rightarrow> string option"
  protocol :: string

text \<open>The fields of a parsed \<^verbatim>\<open>URL\<close> object that the code reads.\<close>

record url =
  hostname :: string
  origin :: string
  href :: string

text \<open>
  \<^verbatim>\<open>new URL(s)\<close> is the platform's parser, not code of the repository: the handlers take
  it as a parameter. \<open>None\<close> stands for the \<^verbatim>\<open>TypeError\<close> it throws on a string it
  cannot parse.
\<close>

type_synonym url_parser = "string \<Rightarrow> url option"

datatype jval = JString string | JArray "string list" | JNumber nat | JUndefined

datatype payload = Json "(string \<times> jval) list" | Send string

text \<open>
  A thrown value: an \<^verbatim>\<open>Error\<close> object with its \<^verbatim>\<open>message\<close>, and the \<^verbatim>\<open>code\<close> and
  \<^verbatim>\<open>response.status\<close> that the HTTP client attaches to its errors.
\<close>

record js_error =
  message :: string
  code :: "string option"
  response_status :: "nat option"

definition Error :: "string \<Rightarrow> js_error" where
  "Error m = \<lparr>message = m, code = None, response_status = None\<rparr>"

text \<open>
  JavaScript truthiness of a header or query value: \<^verbatim>\<open>undefined\<close> and the empty string
  are falsy.
\<close>

definition truthy :: "string option \<Rightarrow> bool" where
  "truthy v = (case v of None \<Rightarrow> False | Some s \<Rightarrow> s \<noteq> [])"

section \<open>Throttling\<close>

text \<open>
  \<^verbatim>\<open>THROTTLE_ENABLED\<close>, \<^verbatim>\<open>THROTTLE_MIN_MS\<close> and \<^verbatim>\<open>THROTTLE_MAX_MS\<close>, read once from the
  environment when the module is loaded.
\<close>

record throttle_config =
  THROTTLE_ENABLED :: bool
  THROTTLE_MIN_MS :: int
  THROTTLE_MAX_MS :: int

text \<open>
  \<^verbatim>\<open>Math.random()\<close> returns a Number, an IEEE 754 double, that is at least 0 and less
  than 1. Such a double is \<open>mantissa / 2 ^ scale\<close> with a mantissa of at most 53 bits and
  a scale of at most 1074, and every pair within these bounds is one.
\<close>

record double01 =
  mantissa :: nat
  scale :: nat

definition is_double01 :: "double01 \<Rightarrow> bool" where
  "is_double01 r = (mantissa r < 2 ^ 53 \<and> scale r \<le> 1074 \<and> mantissa r < 2 ^ scale r)"

definition double_value :: "double01 \<Rightarrow> real" where
  "double_value r = real (mantissa r) / 2 ^ scale r"

text \<open>The number of binary digits of a natural number.\<close>

fun bits :: "nat \<Rightarrow> nat" where
  "bits n = (if n = 0 then 0 else Suc (bits (n div 2)))"

declare bits.simps [simp del]

text \<open>
  Rounding to 53 significant bits, to the nearest and on a tie to the even neighbour,
  as every arithmetic operation on doubles rounds its exact result.
\<close>

definition round53 :: "nat \<Rightarrow> nat" where
  "round53 n =
     (let s = bits n - 53; q = n div 2 ^ s; rest = n mod 2 ^ s
      in (if 2 ^ s < 2 * rest \<or> (2 * rest = 2 ^ s \<and> odd q) then q + 1 else q) * 2 ^ s)"

text \<open>
  The double \<^verbatim>\<open>r * w\<close> for a sample \<open>r\<close> and an integer \<open>w\<close> of magnitude below \<open>2 ^ 53\<close>:
  the exact product \<open>mantissa * w / 2 ^ scale\<close> with its numerator rounded. A product
  that is rounded has a numerator of 54 bits or more, so it is at least \<open>2 ^ 53 / 2 ^ 1074\<close>
  and lies in the normal range; no product overflows.
\<close>

definition times_double :: "double01 \<Rightarrow> int \<Rightarrow> real" where
  "times_double r w =
     of_int (sgn w) * real (round53 (mantissa r * nat \<bar>w\<bar>)) / 2 ^ scale r"

text \<open>
  \<^verbatim>\<open>Math.floor(Math.random() * (THROTTLE_MAX_MS - THROTTLE_MIN_MS)) + THROTTLE_MIN_MS\<close>,
  with the sample \<open>r\<close> of \<^verbatim>\<open>Math.random()\<close> as an argument. The two settings are
  integers (\<^verbatim>\<open>parseInt\<close>), and for settings of the size of a delay in milliseconds the
  subtraction and the addition are exact; the multiplication rounds.
\<close>

definition throttleDelay :: "throttle_config \<Rightarrow> double01 \<Rightarrow> int" where
  "throttleDelay cfg r =
     \<lfloor>times_double r (THROTTLE_MAX_MS cfg - THROTTLE_MIN_MS cfg)\<rfloor> + THROTTLE_MIN_MS cfg"

text \<open>
  \<^verbatim>\<open>applyThrottling\<close>: the delay handed to \<^verbatim>\<open>setTimeout\<close>, or \<open>None\<close> when no timer is
  started. The same block is inlined in the two Express servers.
\<close>

definition applyThrottling :: "throttle_config \<Rightarrow> double01 \<Rightarrow> int option" where
  "applyThrottling cfg r =
     (if THROTTLE_ENABLED cfg then Some (throttleDelay cfg r) else None)"

definition duration_waited :: "int option \<Rightarrow> int" where
  "duration_waited t = (case t of None \<Rightarrow> 0 | Some d \<Rightarrow> d)"

section \<open>Asynchronous code with exceptions\<close>

text \<open>
  The calls the browser handlers make on the automation driver. Each is awaited and
  either returns or throws.
\<close>

datatype op =
    ExecutablePath
  | Launch
  | NewPage
  | SetViewport nat nat
  | SetUserAgent string
  | SetExtraHTTPHeaders "(string \<times> string) list"
  | Goto string nat
  | WaitForTimeout nat
  | Content
  | ClosePage
  | CloseBrowser

datatype event = Called op | Slept int | Warned string | Logged string

text \<open>
  What lies outside the handler: for each driver call whether it throws (and what),
  the serialised page \<^verbatim>\<open>page.content()\<close> returns, the sample of \<^verbatim>\<open>Math.random()\<close>, and
  whether \<^verbatim>\<open>NODE_ENV\<close> is \<^verbatim>\<open>development\<close>. Every awaited call settles, and what
  it throws is an \<^verbatim>\<open>Error\<close> object: the \<^verbatim>\<open>catch\<close> blocks read \<^verbatim>\<open>error.message\<close>.
  Writing to the response (\<^verbatim>\<open>res.setHeader\<close>, \<^verbatim>\<open>res.status\<close>, \<^verbatim>\<open>res.json\<close>,
  \<^verbatim>\<open>res.send\<close>) and logging do not throw.
\<close>

record env =
  fails :: "op \<Rightarrow> js_error option"
  page_html :: string
  random :: double01
  development :: bool

text \<open>
  The state a handler run reads and writes: the variables \<^verbatim>\<open>browser\<close> and \<^verbatim>\<open>page\<close>
  (\<open>False\<close> is \<^verbatim>\<open>null\<close>), the response headers set so far, the response sent, and the
  trace of driver calls, timers and log lines.
\<close>

record hstate =
  browser :: bool
  page :: bool
  res_headers :: "(string \<times> string) list"
  sent :: "(nat \<times> payload) option"
  trace :: "event list"

type_synonym 'a js = "hstate \<Rightarrow> (js_error + 'a) \<times> hstate"

definition js_return :: "'a \<Rightarrow> 'a js" where
  "js_return x s = (Inr x, s)"

definition js_bind :: "'a js \<Rightarrow> ('a \<Rightarrow> 'b js) \<Rightarrow> 'b js" where
  "js_bind m f s = (case m s of (Inl e, s') \<Rightarrow> (Inl e, s') | (Inr x, s') \<Rightarrow> f x s')"

text \<open>Statements in sequence: the first that throws ends the block.\<close>

fun js_seq :: "unit js list \<Rightarrow> unit js" where
  "js_seq [] = js_return ()"
| "js_seq (m # ms) = js_bind m (\<lambda>_. js_seq ms)"

text \<open>\<^verbatim>\<open>try { m } catch (e) { h e }\<close>\<close>

definition js_try_catch :: "'a js \<Rightarrow> (js_error \<Rightarrow> 'a js) \<Rightarrow> 'a js" where
  "js_try_catch m h s = (case m s of (Inl e, s') \<Rightarrow> h e s' | (Inr x, s') \<Rightarrow> (Inr x, s'))"

text \<open>
  \<^verbatim>\<open>try { m } finally { f }\<close>: \<open>f\<close> runs however \<open>m\<close> ended; an exception of \<open>f\<close>
  replaces the outcome of \<open>m\<close>.
\<close>

definition js_finally :: "'a js \<Rightarrow> unit js \<Rightarrow> 'a js" where
  "js_finally m f s =
     (case m s of (r, s') \<Rightarrow>
        (case f s' of (Inl e, s'') \<Rightarrow> (Inl e, s'') | (Inr _, s'') \<Rightarrow> (r, s'')))"

definition js_when :: "bool \<Rightarrow> unit js \<Rightarrow> unit js" where
  "js_when c m = (if c then m else js_return ())"

definition emit :: "event \<Rightarrow> unit js" where
  "emit ev s = (Inr (), s\<lparr>trace := trace s @ [ev]\<rparr>)"

text \<open>An awaited driver call: recorded, then it returns or throws as the environment says.\<close>

definition call :: "env \<Rightarrow> op \<Rightarrow> unit js" where
  "call e operation s =
     (let s' = s\<lparr>trace := trace s @ [Called operation]\<rparr>
      in case fails e operation of None \<Rightarrow> (Inr (), s') | Some err \<Rightarrow> (Inl err, s'))"

definition assign_browser :: "unit js" where
  "assign_browser s = (Inr (), s\<lparr>browser := True\<rparr>)"

definition assign_page :: "unit js" where
  "assign_page s = (Inr (), s\<lparr>page := True\<rparr>)"

text \<open>\<^verbatim>\<open>res.setHeader(key, value)\<close>\<close>

definition setHeader :: "string \<Rightarrow> string \<Rightarrow> unit js" where
  "setHeader k v s = (Inr (), s\<lparr>res_headers := AList.update k v (res_headers s)\<rparr>)"

text \<open>\<^verbatim>\<open>res.status(c).json(b)\<close> and \<^verbatim>\<open>res.status(c).send(b)\<close>\<close>

definition respond :: "nat \<Rightarrow> payload \<Rightarrow> unit js" where
  "respond c b s = (Inr (), s\<lparr>sent := Some (c, b)\<rparr>)"

text \<open>The state at the start of a run of the serverless handler.\<close>

definition init_state :: hstate where
  "init_state = \<lparr>browser = False, page = False, res_headers = [], sent = None, trace = []\<rparr>"

section \<open>The serverless browser handler (\<^verbatim>\<open>api/index.js\<close>)\<close>

definition corsHeaders :: "(string \<times> string) list" where
  "corsHeaders =
     [(''Access-Control-Allow-Origin'', ''*''),
      (''Access-Control-Allow-Methods'', ''GET, POST, PUT, DELETE, OPTIONS''),
      (''Access-Control-Allow-Headers'', ''Content-Type, Authorization, X-Requested-With''),
      (''Access-Control-Max-Age'', ''86400'')]"

definition userAgent :: string where
  "userAgent = ''Mozilla/5.0 (Windows NT 10.0; Win64; x64) AppleWebKit/537.36 (KHTML, like Gecko) Chrome/120.0.0.0 Safari/537.36''"

definition acceptDefault :: string where
  "acceptDefault = ''text/html,application/xhtml+xml,application/xml;q=0.9,image/avif,image/webp,image/apng,*/*;q=0.8,application/signed-exchange;v=b3;q=0.7''"

text \<open>
  The object literal of the first \<^verbatim>\<open>page.setExtraHTTPHeaders\<close> call, the same in
  \<^verbatim>\<open>api/index.js\<close> and \<^verbatim>\<open>server.js\<close>.
\<close>

definition antiBotHeaders :: "(string \<times> string) list" where
  "antiBotHeaders =
     [(''Accept'', acceptDefault),
      (''Accept-Language'', ''en-US,en;q=0.9''),
      (''Accept-Encoding'', ''gzip, deflate, br''),
      (''DNT'', ''1''),
      (''Connection'', ''keep-alive''),
      (''Upgrade-Insecure-Requests'', ''1''),
      (''Sec-Fetch-Dest'', ''document''),
      (''Sec-Fetch-Mode'', ''navigate''),
      (''Sec-Fetch-Site'', ''none''),
      (''Sec-Fetch-User'', ''?1''),
      (''Cache-Control'', ''max-age=0'')]"

datatype validation = Reject nat "(string \<times> jval) list" | Proceed string url

text \<open>
  The checks at the head of the \<^verbatim>\<open>try\<close> block: a missing or empty \<^verbatim>\<open>url\<close>, a string
  the parser refuses, a hostname the guard matches.
\<close>

definition validate :: "url_parser \<Rightarrow> request \<Rightarrow> validation" where
  "validate parseURL req =
     (case query_url req of
        None \<Rightarrow>
          Reject 400 [(''error'', JString ''URL parameter is required''),
                      (''usage'', JString ''/learn?url=<TARGET_URL>'')]
      | Some targetUrl \<Rightarrow>
          if targetUrl = [] then
            Reject 400 [(''error'', JString ''URL parameter is required''),
                        (''usage'', JString ''/learn?url=<TARGET_URL>'')]
          else
            (case parseURL targetUrl of
               None \<Rightarrow>
                 Reject 400 [(''error'', JString ''Invalid URL format''),
                             (''details'', JString ''Please provide a valid URL with protocol (http:// or https://)'')]
             | Some parsedUrl \<Rightarrow>
                 if isPrivateIP (hostname parsedUrl) then
                   Reject 403 [(''error'', JString ''Access to private IPs is not allowed''),
                               (''hostname'', JString (hostname parsedUrl))]
                 else Proceed targetUrl parsedUrl))"

definition throttle_step :: "throttle_config \<Rightarrow> env \<Rightarrow> unit js" where
  "throttle_step cfg e =
     (case applyThrottling cfg (random e) of
        None \<Rightarrow> js_return ()
      | Some d \<Rightarrow> emit (Slept d))"

text \<open>
  \<^verbatim>\<open>if (req.headers[name]) { await page.setExtraHTTPHeaders({ Name: req.headers[name] }); }\<close>
\<close>

definition forward_header :: "env \<Rightarrow> request \<Rightarrow> string \<Rightarrow> string \<Rightarrow> unit js" where
  "forward_header e req name Name =
     (case headers req name of
        None \<Rightarrow> js_return ()
      | Some v \<Rightarrow>
          if v = [] then js_return () else call e (SetExtraHTTPHeaders [(Name, v)]))"

text \<open>The page set-up both browser handlers share, from the viewport to the forwarded headers.\<close>

definition prepare_page :: "env \<Rightarrow> request \<Rightarrow> unit js list" where
  "prepare_page e req =
     [call e (SetViewport 1920 1080),
      call e (SetUserAgent userAgent),
      call e (SetExtraHTTPHeaders antiBotHeaders),
      forward_header e req ''cookie'' ''Cookie'',
      forward_header e req ''authorization'' ''Authorization'',
      forward_header e req ''referer'' ''Referer'']"

text \<open>
  The \<^verbatim>\<open>try\<close> block after validation, statement by statement. In
  \<^verbatim>\<open>browser = await puppeteer.launch({ ..., executablePath: await chromium.executablePath, ... })\<close>
  the executable path is awaited first, and the variable is assigned only when the launch
  returns; \<^verbatim>\<open>page = await browser.newPage()\<close> likewise.
\<close>

definition render :: "throttle_config \<Rightarrow> env \<Rightarrow> request \<Rightarrow> string \<Rightarrow> unit js" where
  "render cfg e req targetUrl =
     js_seq
       ([throttle_step cfg e,
         js_seq [call e ExecutablePath, call e Launch, assign_browser],
         js_seq [call e NewPage, assign_page]]
        @ prepare_page e req
        @ [call e (Goto targetUrl 25000),
           call e (WaitForTimeout 1000),
           call e Content,
           setHeader ''Content-Type'' ''text/html; charset=utf-8'',
           setHeader ''X-Frame-Options'' ''ALLOWALL'',
           setHeader ''Cache-Control'' ''no-cache, no-store, must-revalidate'',
           setHeader ''Pragma'' ''no-cache'',
           setHeader ''Expires'' ''0'']
        @ map (\<lambda>(k, v). setHeader k v) corsHeaders
        @ [respond 200 (Send (page_html e))])"

text \<open>
  The \<^verbatim>\<open>if\<close>/\<^verbatim>\<open>else if\<close> chain of the \<^verbatim>\<open>catch\<close> block of \<^verbatim>\<open>api/index.js\<close>: the user
  message and the status for an error message.
\<close>

definition classify :: "string \<Rightarrow> string \<times> nat" where
  "classify msg =
     (if includes_str msg ''Navigation timeout'' then
        (''Page load timeout. The website is taking too long to respond.'', 504)
      else if includes_str msg ''net::ERR_NAME_NOT_RESOLVED'' then
        (''Website not found. Please check the URL.'', 404)
      else if includes_str msg ''net::ERR_CONNECTION_REFUSED'' then
        (''Connection refused. The website may be down.'', 503)
      else if includes_str msg ''net::ERR_ABORTED'' then
        (''Request was aborted. The website may have blocked the request.'', 403)
      else if includes_str msg ''Protocol error'' then
        (''Protocol error occurred while loading the page.'', 502)
      else if includes_str msg ''Target page, context or browser has been closed'' then
        (''Browser session expired. Please try again.'', 408)
      else (''Failed to learn from the requested website'', 500))"

definition error_body :: "env \<Rightarrow> request \<Rightarrow> js_error \<Rightarrow> string \<times> nat \<Rightarrow> payload" where
  "error_body e req err cls =
     Json [(''error'', JString (fst cls)),
           (''url'', case query_url req of None \<Rightarrow> JUndefined | Some u \<Rightarrow> JString u),
           (''statusCode'', JNumber (snd cls)),
           (''details'', if development e then JString (message err) else JUndefined)]"

definition catch_block :: "env \<Rightarrow> request \<Rightarrow> js_error \<Rightarrow> unit js" where
  "catch_block e req err =
     js_seq
       ([emit (Logged (message err))]
        @ map (\<lambda>(k, v). setHeader k v) corsHeaders
        @ [respond (snd (classify (message err)))
             (error_body e req err (classify (message err)))])"

text \<open>
  \<^verbatim>\<open>if (page) { try { await page.close(); } catch (e) { console.warn(...) } }\<close>
\<close>

definition close_page :: "env \<Rightarrow> unit js" where
  "close_page e s =
     js_when (page s)
       (js_try_catch (call e ClosePage)
          (\<lambda>err. emit (Warned (''Warning: Could not close page: '' @ message err)))) s"

text \<open>
  \<^verbatim>\<open>if (browser) { try { await browser.close(); } catch (e) { console.warn(...) } }\<close>
\<close>

definition close_browser :: "env \<Rightarrow> unit js" where
  "close_browser e s =
     js_when (browser s)
       (js_try_catch (call e CloseBrowser)
          (\<lambda>err. emit (Warned (''Warning: Could not close browser: '' @ message err)))) s"

definition finally_block :: "env \<Rightarrow> unit js" where
  "finally_block e = js_seq [close_page e, close_browser e]"

text \<open>
  The exported \<^verbatim>\<open>handler\<close>. The two method checks stand before the \<^verbatim>\<open>try\<close>; every
  \<^verbatim>\<open>return\<close> inside the \<^verbatim>\<open>try\<close> still runs the \<^verbatim>\<open>finally\<close> block.
\<close>

definition handler :: "url_parser \<Rightarrow> throttle_config \<Rightarrow> env \<Rightarrow> request \<Rightarrow> unit js" where
  "handler parseURL cfg e req =
     (if req_method req = ''OPTIONS'' then
        respond 200 (Json [(''message'', JString ''CORS preflight'')])
      else if req_method req \<noteq> ''GET'' then
        respond 405 (Json [(''error'', JString ''Method not allowed''),
                           (''allowedMethods'', JArray [''GET''])])
      else
        js_finally
          (js_try_catch
             (case validate parseURL req of
                Reject c b \<Rightarrow> respond c (Json b)
              | Proceed targetUrl parsedUrl \<Rightarrow> render cfg e req targetUrl)
             (catch_block e req))
          (finally_block e))"

section \<open>The persistent browser server (\<^verbatim>\<open>server.js\<close>)\<close>

text \<open>
  \<^verbatim>\<open>initBrowser\<close>: the module-level \<^verbatim>\<open>browser\<close> is launched once and reused by every
  later request.
\<close>

definition initBrowser :: "env \<Rightarrow> unit js" where
  "initBrowser e s =
     (if browser s then (Inr (), s) else js_seq [call e Launch, assign_browser] s)"

text \<open>\<^verbatim>\<open>let page = null;\<close>\<close>

definition declare_page :: "unit js" where
  "declare_page s = (Inr (), s\<lparr>page := False\<rparr>)"

definition validate_learn :: "url_parser \<Rightarrow> request \<Rightarrow> validation" where
  "validate_learn parseURL req =
     (case query_url req of
        None \<Rightarrow> Reject 400 [(''error'', JString ''URL parameter is required'')]
      | Some targetUrl \<Rightarrow>
          if targetUrl = [] then Reject 400 [(''error'', JString ''URL parameter is required'')]
          else
            (case parseURL targetUrl of
               None \<Rightarrow> Reject 400 [(''error'', JString ''Invalid URL format'')]
             | Some parsedUrl \<Rightarrow>
                 if isPrivateIP (hostname parsedUrl) then
                   Reject 403 [(''error'', JString ''Access to private IPs is not allowed'')]
                 else Proceed targetUrl parsedUrl))"

definition render_learn :: "throttle_config \<Rightarrow> env \<Rightarrow> request \<Rightarrow> string \<Rightarrow> unit js" where
  "render_learn cfg e req targetUrl =
     js_seq
       ([throttle_step cfg e,
         initBrowser e,
         js_seq [call e NewPage, assign_page]]
        @ prepare_page e req
        @ [call e (Goto targetUrl 30000),
           call e (WaitForTimeout 1000),
           call e Content,
           setHeader ''Content-Type'' ''text/html; charset=utf-8'',
           setHeader ''X-Frame-Options'' ''ALLOWALL'',
           setHeader ''Cache-Control'' ''no-cache, no-store, must-revalidate'',
           setHeader ''Pragma'' ''no-cache'',
           setHeader ''Expires'' ''0'',
           setHeader ''Access-Control-Allow-Origin'' ''*'',
           setHeader ''Access-Control-Allow-Methods'' ''GET, POST, PUT, DELETE, OPTIONS'',
           setHeader ''Access-Control-Allow-Headers'' ''Content-Type, Authorization'',
           respond 200 (Send (page_html e))])"

text \<open>The chain of the \<^verbatim>\<open>catch\<close> block of \<^verbatim>\<open>server.js\<close>: five tests, then the default.\<close>

definition classify_learn :: "string \<Rightarrow> string \<times> nat" where
  "classify_learn msg =
     (if includes_str msg ''Navigation timeout'' then
        (''Page load timeout. The website is taking too long to respond.'', 504)
      else if includes_str msg ''net::ERR_NAME_NOT_RESOLVED'' then
        (''Website not found. Please check the URL.'', 404)
      else if includes_str msg ''net::ERR_CONNECTION_REFUSED'' then
        (''Connection refused. The website may be down.'', 503)
      else if includes_str msg ''net::ERR_ABORTED'' then
        (''Request was aborted. The website may have blocked the request.'', 403)
      else if includes_str msg ''Protocol error'' then
        (''Protocol error occurred while loading the page.'', 502)
      else (''Failed to learn from the requested website'', 500))"

definition catch_block_learn :: "env \<Rightarrow> request \<Rightarrow> js_error \<Rightarrow> unit js" where
  "catch_block_learn e req err =
     js_seq
       [emit (Logged (message err)),
        respond (snd (classify_learn (message err)))
          (error_body e req err (classify_learn (message err)))]"

text \<open>
  The handler of \<^verbatim>\<open>app.get('/learn', ...)\<close>. Its \<^verbatim>\<open>finally\<close> block closes the page only:
  the browser outlives the request.
\<close>

definition learn :: "url_parser \<Rightarrow> throttle_config \<Rightarrow> env \<Rightarrow> request \<Rightarrow> unit js" where
  "learn parseURL cfg e req =
     js_bind declare_page (\<lambda>_.
       js_finally
         (js_try_catch
            (case validate_learn parseURL req of
               Reject c b \<Rightarrow> respond c (Json b)
             | Proceed targetUrl parsedUrl \<Rightarrow> render_learn cfg e req targetUrl)
            (catch_block_learn e req))
         (close_page e))"

text \<open>
  The error-handling middleware of \<^verbatim>\<open>server.js\<close>, which Express calls with what an
  earlier layer threw or passed to \<^verbatim>\<open>next\<close>.
\<close>

definition errorHandler :: "env \<Rightarrow> js_error \<Rightarrow> unit js" where
  "errorHandler e err =
     respond 500
       (Json [(''error'', JString ''Internal server error''),
              (''details'', if development e then JString (message err) else JUndefined)])"

text \<open>The last layer of \<^verbatim>\<open>server.js\<close>, registered with \<^verbatim>\<open>app.use\<close> for every method and path.\<close>

definition notFound :: "unit js" where
  "notFound =
     respond 404
       (Json [(''error'', JString ''Endpoint not found''),
              (''availableEndpoints'', JArray [''/health'', ''/learn''])])"

text \<open>
  What the layers registered before the routes (\<^verbatim>\<open>helmet\<close>, \<^verbatim>\<open>cors\<close>, the rate limiter
  on \<^verbatim>\<open>/learn\<close>, the body parsers) do with a request. They are library code: each either
  passes the request on, ends it with a response of its own (a preflight, a rate limit),
  or fails.
\<close>

datatype middleware_outcome = Passes | Ends nat payload | Raises js_error

text \<open>
  What the application of \<^verbatim>\<open>server.js\<close> does with a request for the path \<^verbatim>\<open>/learn\<close>, in
  the order of registration. The dispatch is Express's: a route registered with
  \<^verbatim>\<open>app.get\<close> takes the requests whose method is \<^verbatim>\<open>GET\<close>, and those whose method is
  \<^verbatim>\<open>HEAD\<close> when the path has no route of its own for \<^verbatim>\<open>HEAD\<close>; the error-handling
  middleware is skipped when nothing failed; the last layer takes what no route took.
\<close>

definition learn_endpoint ::
  "(request \<Rightarrow> middleware_outcome) \<Rightarrow> url_parser \<Rightarrow> throttle_config \<Rightarrow> env \<Rightarrow> request \<Rightarrow>
   unit js" where
  "learn_endpoint middleware parseURL cfg e req =
     (case middleware req of
        Ends c b \<Rightarrow> respond c b
      | Raises err \<Rightarrow> errorHandler e err
      | Passes \<Rightarrow>
          if req_method req = ''GET'' \<or> req_method req = ''HEAD''
          then learn parseURL cfg e req
          else notFound)"

section \<open>Header sets\<close>

text \<open>
  \<^verbatim>\<open>page.setExtraHTTPHeaders(headers)\<close> belongs to the automation driver (Puppeteer), not
  to the repository. The driver stores the object of the call as the page's extra
  headers, under lower-cased names, in place of what an earlier call stored: the calls
  do not accumulate. The first argument is the object of the call, the second the
  headers the page held before.
\<close>

definition setExtraHTTPHeaders ::
  "(string \<times> string) list \<Rightarrow> (string \<times> string) list \<Rightarrow> (string \<times> string) list" where
  "setExtraHTTPHeaders hs held = map (\<lambda>(k, v). (map toLowerASCII k, v)) hs"

text \<open>The extra headers a page holds after the driver calls of a trace.\<close>

definition page_extra_headers :: "event list \<Rightarrow> (string \<times> string) list" where
  "page_extra_headers evs =
     foldl (\<lambda>held ev. case ev of
                         Called (SetExtraHTTPHeaders hs) \<Rightarrow> setExtraHTTPHeaders hs held
                       | _ \<Rightarrow> held) [] evs"

text \<open>
  The direct-fetch server builds one object \<^verbatim>\<open>requestHeaders\<close> and assigns the
  forwarded headers into it. This is the object literal.
\<close>

definition defaultRequestHeaders :: "(string \<times> string) list" where
  \<open>defaultRequestHeaders =
     [(''User-Agent'', userAgent),
      (''Accept'', acceptDefault),
      (''Accept-Language'', ''en-US,en;q=0.9''),
      (''Accept-Encoding'', ''gzip, deflate, br''),
      (''Connection'', ''keep-alive''),
      (''Upgrade-Insecure-Requests'', ''1''),
      (''Sec-Fetch-Dest'', ''document''),
      (''Sec-Fetch-Mode'', ''navigate''),
      (''Sec-Fetch-Site'', ''none''),
      (''Sec-Fetch-User'', ''?1''),
      (''Cache-Control'', ''max-age=0''),
      (''DNT'', ''1''),
      (''Sec-Ch-Ua'', ''"Not_A Brand";v="8", "Chromium";v="120", "Google Chrome";v="120"''),
      (''Sec-Ch-Ua-Mobile'', ''?0''),
      (''Sec-Ch-Ua-Platform'', ''"Windows"'')]\<close>

text \<open>
  \<^verbatim>\<open>if (req.headers[name]) { requestHeaders[Name] = req.headers[name]; }\<close>
\<close>

definition forward ::
  "request \<Rightarrow> string \<Rightarrow> string \<Rightarrow> (string \<times> string) list \<Rightarrow> (string \<times> string) list" where
  "forward req name Name hs =
     (case headers req name of
        None \<Rightarrow> hs
      | Some v \<Rightarrow> if v = [] then hs else AList.update Name v hs)"

definition requestHeaders :: "request \<Rightarrow> (string \<times> string) list" where
  "requestHeaders req =
     forward req ''authorization'' ''Authorization''
       (forward req ''referer'' ''Referer''
          (forward req ''cookie'' ''Cookie''
             (forward req ''accept-language'' ''Accept-Language''
                (forward req ''accept'' ''Accept''
                   (forward req ''user-agent'' ''User-Agent'' defaultRequestHeaders)))))"

section \<open>Percent-encoding\<close>

text \<open>
  \<^verbatim>\<open>encodeURIComponent\<close> keeps the unreserved characters
  \<^verbatim>\<open>A-Z a-z 0-9 - _ . ! ~ * ' ( )\<close> and writes every other byte of the UTF-8 form of
  its argument as \<^verbatim>\<open>%XX\<close> with upper-case hexadecimal digits. A \<^typ>\<open>string\<close> is read
  here as that sequence of bytes; the serialisation \<^verbatim>\<open>href\<close> of a URL is ASCII.
\<close>

definition uriUnreserved :: "char \<Rightarrow> bool" where
  "uriUnreserved c =
     (let n = (of_char c :: nat)
      in (65 \<le> n \<and> n \<le> 90) \<or> (97 \<le> n \<and> n \<le> 122) \<or> (48 \<le> n \<and> n \<le> 57) \<or>
         c \<in> set ''-_.!~*()'' \<or> n = 39)"

definition hexDigit :: "nat \<Rightarrow> char" where
  "hexDigit n = ''0123456789ABCDEF'' ! n"

definition percentEncode :: "char \<Rightarrow> string" where
  "percentEncode c =
     [CHR ''%'', hexDigit ((of_char c :: nat) div 16), hexDigit ((of_char c :: nat) mod 16)]"

definition encodeURIComponent :: "string \<Rightarrow> string" where
  "encodeURIComponent s =
     concat (map (\<lambda>c. if uriUnreserved c then [c] else percentEncode c) s)"

definition hexVal :: "char \<Rightarrow> nat option" where
  "hexVal c =
     (let n = (of_char c :: nat)
      in if 48 \<le> n \<and> n \<le> 57 then Some (n - 48)
         else if 65 \<le> n \<and> n \<le> 70 then Some (n - 55)
         else if 97 \<le> n \<and> n \<le> 102 then Some (n - 87)
         else None)"

text \<open>
  \<^verbatim>\<open>decodeURIComponent\<close>, which the query parser applies to the value of \<^verbatim>\<open>url\<close>:
  every \<^verbatim>\<open>%XX\<close> becomes the byte it names; \<open>None\<close> is the \<^verbatim>\<open>URIError\<close> for a
  \<^verbatim>\<open>%\<close> that two hexadecimal digits do not follow.
\<close>

fun decodeURIComponent :: "string \<Rightarrow> string option" where
  "decodeURIComponent [] = Some []"
| "decodeURIComponent (c # cs) =
     (if c = CHR ''%'' then
        (case cs of
           h1 # h2 # rest \<Rightarrow>
             (case (hexVal h1, hexVal h2) of
                (Some a, Some b) \<Rightarrow>
                  map_option ((#) (char_of (16 * a + b))) (decodeURIComponent rest)
              | _ \<Rightarrow> None)
         | _ \<Rightarrow> None)
      else map_option ((#) c) (decodeURIComponent cs))"

section \<open>The URL rewriter\<close>

text \<open>
  The document tree the HTML parser builds: elements with a lower-case tag name, their
  attributes in source order, and their children; everything else is text.
\<close>

datatype node = Element string "(string \<times> string) list" "node list" | Text string

text \<open>
  \<^verbatim>\<open>new URL(value, baseUrl).href\<close> is the platform's parser again, taken as a parameter;
  \<open>None\<close> stands for the \<^verbatim>\<open>TypeError\<close> it throws.
\<close>

type_synonym resolver = "string \<Rightarrow> url \<Rightarrow> string option"

text \<open>
  \<^verbatim>\<open>req.protocol || 'https'\<close>, \<^verbatim>\<open>req.get('host') || 'outletbackend.onrender.com'\<close> and the
  template string of \<^verbatim>\<open>proxyBase\<close>.
\<close>

definition proxyBase :: "request \<Rightarrow> string" where
  "proxyBase req =
     (if protocol req = [] then ''https'' else protocol req) @ ''://'' @
     (case headers req ''host'' of
        None \<Rightarrow> ''outletbackend.onrender.com''
      | Some h \<Rightarrow> if h = [] then ''outletbackend.onrender.com'' else h) @
     ''/proxy?url=''"

text \<open>\<^verbatim>\<open>$('tag[a]').each(f)\<close>: \<open>f\<close> edits the attributes of every element the selector matches.\<close>

fun each ::
  "string \<Rightarrow> string \<Rightarrow> ((string \<times> string) list \<Rightarrow> (string \<times> string) list) \<Rightarrow> node \<Rightarrow> node" where
  "each tg a f (Text t) = Text t"
| "each tg a f (Element t as cs) =
     Element t (if t = tg \<and> map_of as a \<noteq> None then f as else as) (map (each tg a f) cs)"

text \<open>The attribute lists of the elements \<^verbatim>\<open>$('tag[a]')\<close> matches, in document order.\<close>

fun selected :: "string \<Rightarrow> string \<Rightarrow> node \<Rightarrow> (string \<times> string) list list" where
  "selected tg a (Text t) = []"
| "selected tg a (Element t as cs) =
     (if t = tg \<and> map_of as a \<noteq> None then [as] else []) @ concat (map (selected tg a) cs)"

text \<open>The elements of a document in document order, each with its tag and attributes.\<close>

fun elements :: "node \<Rightarrow> (string \<times> (string \<times> string) list) list" where
  "elements (Text t) = []"
| "elements (Element t as cs) = (t, as) # concat (map elements cs)"

text \<open>\<^verbatim>\<open>if (href)\<close>, the test of the link and form passes.\<close>

definition present :: "string \<Rightarrow> bool" where
  "present v = (v \<noteq> [])"

text \<open>\<^verbatim>\<open>if (src && !src.startsWith('data:'))\<close>, the test of the image, script and stylesheet passes.\<close>

definition present_not_data :: "string \<Rightarrow> bool" where
  "present_not_data v = (v \<noteq> [] \<and> \<not> startsWith v ''data:'')"

text \<open>
  The body of a callback with its \<^verbatim>\<open>try\<close>/\<^verbatim>\<open>catch\<close>: the attribute \<open>a\<close> is replaced when
  the test holds and the value resolves, and left as it is otherwise.
\<close>

definition patch ::
  "resolver \<Rightarrow> string \<Rightarrow> url \<Rightarrow> string \<Rightarrow> (string \<Rightarrow> bool) \<Rightarrow>
   (string \<times> string) list \<Rightarrow> (string \<times> string) list" where
  "patch resolve pb baseUrl a test as =
     (case map_of as a of
        None \<Rightarrow> as
      | Some v \<Rightarrow>
          if test v then
            (case resolve v baseUrl of
               Some absoluteUrl \<Rightarrow> AList.update a (pb @ encodeURIComponent absoluteUrl) as
             | None \<Rightarrow> as)
          else as)"

text \<open>What the \<^verbatim>\<open>catch\<close> of a callback logs with \<^verbatim>\<open>console.warn\<close>.\<close>

definition patch_warning ::
  "resolver \<Rightarrow> url \<Rightarrow> string \<Rightarrow> (string \<Rightarrow> bool) \<Rightarrow> string \<Rightarrow>
   (string \<times> string) list \<Rightarrow> string list" where
  "patch_warning resolve baseUrl a test label as =
     (case map_of as a of
        None \<Rightarrow> []
      | Some v \<Rightarrow> if test v \<and> resolve v baseUrl = None then [label @ v] else [])"

text \<open>One pass: the rewritten document and the warnings logged.\<close>

definition pass ::
  "resolver \<Rightarrow> string \<Rightarrow> url \<Rightarrow> string \<Rightarrow> string \<Rightarrow> (string \<Rightarrow> bool) \<Rightarrow> string \<Rightarrow>
   node \<times> string list \<Rightarrow> node \<times> string list" where
  "pass resolve pb baseUrl tg a test label dw =
     (each tg a (patch resolve pb baseUrl a test) (fst dw),
      snd dw @ concat (map (patch_warning resolve baseUrl a test label) (selected tg a (fst dw))))"

text \<open>
  \<^verbatim>\<open>rewriteUrls($, baseUrl, req)\<close> of the direct-fetch server: five passes over the
  document, links first.
\<close>

definition rewriteUrls :: "resolver \<Rightarrow> node \<Rightarrow> url \<Rightarrow> request \<Rightarrow> node \<times> string list" where
  "rewriteUrls resolve doc baseUrl req =
     (let pb = proxyBase req
      in pass resolve pb baseUrl ''link'' ''href'' present_not_data ''Invalid URL in link href: ''
           (pass resolve pb baseUrl ''script'' ''src'' present_not_data ''Invalid URL in script src: ''
              (pass resolve pb baseUrl ''img'' ''src'' present_not_data ''Invalid URL in image src: ''
                 (pass resolve pb baseUrl ''form'' ''action'' present ''Invalid URL in form action: ''
                    (pass resolve pb baseUrl ''a'' ''href'' present ''Invalid URL in link: ''
                       (doc, []))))))"

text \<open>
  The net effect of the five passes on one element: its tag selects at most one pass,
  and that pass edits one attribute.
\<close>

definition rewritten ::
  "resolver \<Rightarrow> string \<Rightarrow> url \<Rightarrow> string \<times> (string \<times> string) list \<Rightarrow>
   string \<times> (string \<times> string) list" where
  "rewritten resolve pb baseUrl el =
     (fst el,
      if fst el = ''a'' then patch resolve pb baseUrl ''href'' present (snd el)
      else if fst el = ''form'' then patch resolve pb baseUrl ''action'' present (snd el)
      else if fst el = ''img'' then patch resolve pb baseUrl ''src'' present_not_data (snd el)
      else if fst el = ''script'' then patch resolve pb baseUrl ''src'' present_not_data (snd el)
      else if fst el = ''link'' then patch resolve pb baseUrl ''href'' present_not_data (snd el)
      else snd el)"

section \<open>The first proxy server (\<^verbatim>\<open>outlet_backend/server.js\<close>)\<close>

text \<open>
  \<^verbatim>\<open>rewriteUrls($, baseUrl)\<close> of this file reads \<^verbatim>\<open>req.protocol\<close> in its first statement,
  and \<^verbatim>\<open>req\<close> is neither a parameter of the function nor a variable of the module. The
  binding of the free identifier is the argument \<open>scope\<close>: \<open>None\<close>, as in the file,
  makes the first statement throw a \<^verbatim>\<open>ReferenceError\<close>.
\<close>

definition ReferenceError_req :: js_error where
  "ReferenceError_req = Error ''req is not defined''"

definition TypeError_invalid_url :: js_error where
  "TypeError_invalid_url =
     \<lparr>message = ''Invalid URL'', code = Some ''ERR_INVALID_URL'', response_status = None\<rparr>"

text \<open>
  A callback of this file has no \<^verbatim>\<open>try\<close>: it throws when the test holds and the value
  does not resolve.
\<close>

definition throws ::
  "resolver \<Rightarrow> url \<Rightarrow> string \<Rightarrow> (string \<Rightarrow> bool) \<Rightarrow> (string \<times> string) list \<Rightarrow> bool" where
  "throws resolve baseUrl a test as =
     (case map_of as a of None \<Rightarrow> False | Some v \<Rightarrow> test v \<and> resolve v baseUrl = None)"

text \<open>
  One pass without \<^verbatim>\<open>try\<close>: the exception of a callback leaves \<^verbatim>\<open>each\<close> and the function.
\<close>

definition pass_unguarded ::
  "resolver \<Rightarrow> string \<Rightarrow> url \<Rightarrow> string \<Rightarrow> string \<Rightarrow> (string \<Rightarrow> bool) \<Rightarrow>
   js_error + node \<Rightarrow> js_error + node" where
  "pass_unguarded resolve pb baseUrl tg a test r =
     (case r of
        Inl err \<Rightarrow> Inl err
      | Inr doc \<Rightarrow>
          if list_ex (throws resolve baseUrl a test) (selected tg a doc)
          then Inl TypeError_invalid_url
          else Inr (each tg a (patch resolve pb baseUrl a test) doc))"

definition rewriteUrls_outlet_backend ::
  "resolver \<Rightarrow> request option \<Rightarrow> node \<Rightarrow> url \<Rightarrow> js_error + node" where
  "rewriteUrls_outlet_backend resolve scope doc baseUrl =
     (case scope of
        None \<Rightarrow> Inl ReferenceError_req
      | Some req \<Rightarrow>
          (let pb = protocol req @ ''://'' @
                    (case headers req ''host'' of None \<Rightarrow> ''undefined'' | Some h \<Rightarrow> h) @
                    ''/proxy?url=''
           in pass_unguarded resolve pb baseUrl ''link'' ''href'' present_not_data
                (pass_unguarded resolve pb baseUrl ''script'' ''src'' present_not_data
                   (pass_unguarded resolve pb baseUrl ''img'' ''src'' present_not_data
                      (pass_unguarded resolve pb baseUrl ''form'' ''action'' present
                         (pass_unguarded resolve pb baseUrl ''a'' ''href'' present
                            (Inr doc)))))))"

text \<open>
  The \<^verbatim>\<open>statusCode\<close> the \<^verbatim>\<open>catch\<close> block of the proxy handler of this file
  computes; the block receives whatever \<^verbatim>\<open>rewriteUrls\<close> throws.
\<close>

definition classify_outlet_backend :: "js_error \<Rightarrow> nat" where
  "classify_outlet_backend err =
     (if code err = Some ''ENOTFOUND'' then 404
      else if code err = Some ''ECONNREFUSED'' then 503
      else if code err = Some ''ETIMEDOUT'' then 504
      else (case response_status err of Some st \<Rightarrow> st | None \<Rightarrow> 500))"

section \<open>Invariants of a run\<close>

text \<open>
  A property of the state that a computation keeps: if it holds before, it holds after,
  whether the computation returns or throws.
\<close>

definition preserves :: "(hstate \<Rightarrow> bool) \<Rightarrow> 'a js \<Rightarrow> bool" where
  "preserves I m = (\<forall>s r s'. I s \<longrightarrow> m s = (r, s') \<longrightarrow> I s')"

definition has_event :: "event \<Rightarrow> hstate \<Rightarrow> bool" where
  "has_event ev s = (ev \<in> set (trace s))"

text \<open>
  The handles a run holds are the ones it acquired: once \<^verbatim>\<open>newPage\<close> has returned,
  \<^verbatim>\<open>page\<close> is set, and once \<^verbatim>\<open>launch\<close> has returned, \<^verbatim>\<open>browser\<close> is set.
\<close>

definition page_tracked :: "env \<Rightarrow> hstate \<Rightarrow> bool" where
  "page_tracked e s =
     (Called NewPage \<in> set (trace s) \<and> fails e NewPage = None \<longrightarrow> page s)"

definition browser_tracked :: "env \<Rightarrow> hstate \<Rightarrow> bool" where
  "browser_tracked e s =
     (Called Launch \<in> set (trace s) \<and> fails e Launch = None \<longrightarrow> browser s)"

section \<open>Sample configurations and environments\<close>

text \<open>
  The configuration when the environment sets none of the three variables:
  \<^verbatim>\<open>process.env.THROTTLE_ENABLED !== 'false'\<close>, \<^verbatim>\<open>parseInt(undefined) || 100\<close> and
  \<^verbatim>\<open>parseInt(undefined) || 500\<close>.
\<close>

definition default_config :: throttle_config where
  "default_config = \<lparr>THROTTLE_ENABLED = True, THROTTLE_MIN_MS = 100, THROTTLE_MAX_MS = 500\<rparr>"

text \<open>An environment where every driver call returns, with the sample \<open>1 / 2\<close>.\<close>

definition calm_env :: env where
  "calm_env =
     \<lparr>fails = (\<lambda>operation. None), page_html = ''<html></html>'',
      random = \<lparr>mantissa = 1, scale = 1\<rparr>, development = False\<rparr>"

text \<open>
  An environment where navigation times out and closing the page fails; every other
  driver call returns.
\<close>

definition stormy_env :: env where
  "stormy_env =
     \<lparr>fails = (\<lambda>operation. case operation of
                  Goto u t \<Rightarrow> Some (Error ''Navigation timeout of 25000 ms exceeded'')
                | ClosePage \<Rightarrow> Some (Error ''Protocol error: Connection closed.'')
                | _ \<Rightarrow> None),
      page_html = ''<html></html>'', random = \<lparr>mantissa = 1, scale = 1\<rparr>,
      development = False\<rparr>"

text \<open>
  An environment where the browser goes away during navigation: \<^verbatim>\<open>page.goto\<close> rejects
  with the message the driver gives that failure.
\<close>

definition disconnected_env :: env where
  "disconnected_env =
     \<lparr>fails = (\<lambda>operation. case operation of
                  Goto u t \<Rightarrow> Some (Error ''Navigation failed because browser has disconnected!'')
                | _ \<Rightarrow> None),
      page_html = ''<html></html>'', random = \<lparr>mantissa = 1, scale = 1\<rparr>,
      development = False\<rparr>"

text \<open>The sample \<open>0.6475\<close>, whose product with 400 is rounded up to \<open>259\<close>.\<close>

definition sample_0_6475 :: double01 where
  "sample_0_6475 = \<lparr>mantissa = 729020189680599, scale = 50\<rparr>"

text \<open>
  What the platform's parser returns for four concrete strings, for running the
  handlers on concrete requests. The hostname of an IPv6 literal keeps its brackets.
\<close>

definition sample_parser :: url_parser where
  "sample_parser u =
     (if u = ''http://169.254.169.254/latest/meta-data/'' then
        Some \<lparr>hostname = ''169.254.169.254'', origin = ''http://169.254.169.254'',
              href = ''http://169.254.169.254/latest/meta-data/''\<rparr>
      else if u = ''http://[::1]/'' then
        Some \<lparr>hostname = ''[::1]'', origin = ''http://[::1]'', href = ''http://[::1]/''\<rparr>
      else if u = ''http://localhost:8080/admin'' then
        Some \<lparr>hostname = ''localhost'', origin = ''http://localhost:8080'',
              href = ''http://localhost:8080/admin''\<rparr>
      else if u = ''https://example.com'' then
        Some \<lparr>hostname = ''example.com'', origin = ''https://example.com'',
              href = ''https://example.com/''\<rparr>
      else None)"

text \<open>
  What the platform's parser returns for \<^verbatim>\<open>new URL(value, baseUrl).href\<close> on four concrete
  values: a path is resolved against the origin of the base, an absolute URL (a
  \<^verbatim>\<open>data:\<close> URL too) is its own serialisation, and \<^verbatim>\<open>http://[\<close> is refused.
\<close>

definition sample_resolver :: resolver where
  "sample_resolver v baseUrl =
     (if v = ''/about'' then Some (origin baseUrl @ ''/about'')
      else if v = ''https://example.org/x?y=1&z=2'' then Some ''https://example.org/x?y=1&z=2''
      else if v = ''data:text/html,hi'' then Some ''data:text/html,hi''
      else None)"

definition example_com :: url where
  "example_com =
     \<lparr>hostname = ''example.com'', origin = ''https://example.com'',
        href = ''https://example.com/''\<rparr>"

text \<open>A request to the proxy endpoint of the deployed direct-fetch server.\<close>

definition proxy_request :: request where
  "proxy_request =
     \<lparr>req_method = ''GET'', query_url = Some ''https://example.com'',
        headers = map_of [(''host'', ''outletbackend.onrender.com'')], protocol = ''https''\<rparr>"

text \<open>A request with the given method, target and headers, received over HTTPS.\<close>

definition request_of :: "string \<Rightarrow> string \<Rightarrow> (string \<times> string) list \<Rightarrow> request" where
  "request_of m u hs =
     \<lparr>req_method = m, query_url = Some u, headers = map_of hs, protocol = ''https''\<rparr>"

section \<open>Throttling: the delay and its bounds\<close>

lemma bits_le: "n < 2 ^ k \<Longrightarrow> bits n \<le> k"
proof (induction n arbitrary: k rule: bits.induct)
  case (1 n)
  show ?case
  proof (cases "n = 0")
    case True
    then show ?thesis by (simp add: bits.simps)
  next
    case False
    show ?thesis
    proof (cases k)
      case 0
      with "1.prems" False show ?thesis by simp
    next
      case (Suc j)
      with "1.prems" have "n div 2 < 2 ^ j" by simp
      from "1.IH"[OF False this] False Suc show ?thesis by (simp add: bits.simps[of n])
    qed
  qed
qed

lemma bits_gt: "2 ^ k \<le> n \<Longrightarrow> k < bits n"
proof (induction n arbitrary: k rule: bits.induct)
  case (1 n)
  have "(0::nat) < 2 ^ k" by simp
  with "1.prems" have nz: "n \<noteq> 0" by linarith
  show ?case
  proof (cases k)
    case 0
    with nz show ?thesis by (simp add: bits.simps[of n])
  next
    case (Suc j)
    with "1.prems" have "2 ^ j \<le> n div 2" by simp
    from "1.IH"[OF nz this] nz Suc show ?thesis by (simp add: bits.simps[of n])
  qed
qed

lemma bits_eq: "2 ^ k \<le> n \<Longrightarrow> n < 2 ^ Suc k \<Longrightarrow> bits n = Suc k"
  using bits_gt[of k n] bits_le[of n "Suc k"] by simp

text \<open>A number of at most 53 bits is a double already.\<close>

lemma round53_exact: "n < 2 ^ 53 \<Longrightarrow> round53 n = n"
  using bits_le[of n 53] by (simp add: round53_def)

text \<open>Rounding moves a number up by at most half a unit in its last kept place.\<close>

lemma round53_upper: "round53 n \<le> n + 2 ^ (bits n - 53) div 2"
proof -
  define s where "s = bits n - 53"
  define q where "q = n div 2 ^ s"
  define rest where "rest = n mod 2 ^ s"
  have n: "n = q * 2 ^ s + rest"
    unfolding q_def rest_def by (rule div_mult_mod_eq[symmetric])
  have r: "round53 n =
      (if 2 ^ s < 2 * rest \<or> (2 * rest = 2 ^ s \<and> odd q) then q + 1 else q) * 2 ^ s"
    by (simp add: round53_def s_def q_def rest_def Let_def)
  show ?thesis
  proof (cases "2 ^ s < 2 * rest \<or> (2 * rest = 2 ^ s \<and> odd q)")
    case True
    then have half: "(2::nat) ^ s div 2 \<le> rest" by linarith
    from True r have "round53 n = q * 2 ^ s + 2 ^ s" by (simp add: algebra_simps)
    moreover have "(2::nat) ^ s \<le> rest + 2 ^ s div 2" using True by linarith
    ultimately show ?thesis unfolding s_def[symmetric] using n by linarith
  next
    case False
    with r have "round53 n = q * 2 ^ s" by simp
    then show ?thesis using n by simp
  qed
qed

text \<open>
  The double product of a sample below 1 with 400 is below 400: the exact product is
  at least \<open>400 / 2 ^ scale\<close> short of 400, and rounding adds at most \<open>256 / 2 ^ scale\<close>.
\<close>

lemma times_400_below:
  assumes "is_double01 r"
  shows "0 \<le> times_double r 400 \<and> times_double r 400 < 400"
proof -
  define m where "m = mantissa r"
  define k where "k = scale r"
  define n where "n = m * 400"
  from assms have m53: "m < 2 ^ 53" and mk: "m < 2 ^ k"
    by (simp_all add: is_double01_def m_def k_def)
  have t: "times_double r 400 = real (round53 n) / 2 ^ k"
    by (simp add: times_double_def n_def m_def k_def)
  have "n < 2 ^ 53 * 400" using m53 by (simp add: n_def)
  also have "\<dots> < (2::nat) ^ 62" by simp
  finally have "n < 2 ^ 62" .
  then have "bits n \<le> 62" by (rule bits_le)
  then have "bits n - 53 \<le> 9" by simp
  then have "(2::nat) ^ (bits n - 53) \<le> 2 ^ 9" by (rule power_increasing) simp
  then have half: "(2::nat) ^ (bits n - 53) div 2 \<le> 256" by simp
  from mk have "m + 1 \<le> 2 ^ k" by simp
  then have "(m + 1) * 400 \<le> 2 ^ k * 400" by (rule mult_le_mono1)
  then have "n + 400 \<le> 2 ^ k * 400" by (simp add: n_def algebra_simps)
  with round53_upper[of n] half have "round53 n < 2 ^ k * 400" by linarith
  then have "real (round53 n) < 2 ^ k * 400"
    by (metis of_nat_less_iff of_nat_mult of_nat_numeral of_nat_power)
  then have "real (round53 n) / 2 ^ k < 400" by (simp add: divide_less_eq)
  moreover have "0 \<le> real (round53 n) / 2 ^ k" by simp
  ultimately show ?thesis using t by simp
qed

lemma throttleDelay_default_bounds:
  assumes "THROTTLE_MIN_MS cfg = 100" and "THROTTLE_MAX_MS cfg = 500"
    and "is_double01 r"
  shows "throttleDelay cfg r = \<lfloor>times_double r 400\<rfloor> + 100 \<and>
         100 \<le> throttleDelay cfg r \<and> throttleDelay cfg r < 500"
proof -
  have d: "throttleDelay cfg r = \<lfloor>times_double r 400\<rfloor> + 100"
    using assms(1,2) by (simp add: throttleDelay_def)
  from times_400_below[OF assms(3)]
  have lo: "0 \<le> \<lfloor>times_double r 400\<rfloor>" and hi: "\<lfloor>times_double r 400\<rfloor> < 400"
    by (simp_all add: floor_less_iff)
  from d lo hi show ?thesis by simp
qed

text \<open>The sample \<open>1 / 2\<close>: the product 200 is exact.\<close>

lemma throttleDelay_half:
  "throttleDelay \<lparr>THROTTLE_ENABLED = on, THROTTLE_MIN_MS = 100, THROTTLE_MAX_MS = 500\<rparr>
     \<lparr>mantissa = Suc 0, scale = Suc 0\<rparr> = 300"
  by (simp add: throttleDelay_def times_double_def round53_exact)

text \<open>
  The sample \<open>0.6475\<close>: the exact product is just below 259, and the 59-bit numerator
  is rounded up to a multiple of 64, which makes the double product 259.
\<close>

lemma bits_sample: "bits 291608075872239600 = 59"
  using bits_eq[of 58 291608075872239600] by simp

lemma round53_sample: "round53 291608075872239600 = 291608075872239616"
  by (simp add: round53_def bits_sample)

lemma times_double_sample: "times_double sample_0_6475 400 = 259"
  by (simp add: times_double_def sample_0_6475_def round53_sample)

lemma exact_product_sample: "\<lfloor>double_value sample_0_6475 * 400\<rfloor> = 258"
  by (simp add: double_value_def sample_0_6475_def)

text \<open>
  Claim C10. With \<^verbatim>\<open>THROTTLE_MIN_MS = 100\<close> and \<^verbatim>\<open>THROTTLE_MAX_MS = 500\<close> and a sample
  \<open>r\<close> of \<^verbatim>\<open>Math.random()\<close>, a double in \<open>[0, 1)\<close>: when throttling is enabled the delay
  is the integer \<open>d = \<lfloor>r * 400\<rfloor> + 100\<close>, the product being the rounded one of doubles;
  it satisfies \<open>100 \<le> d < 500\<close>, the timer is started with exactly \<open>d\<close>, and the step
  of the handler records that one wait and returns normally; when throttling is
  disabled no timer is started, the duration waited is \<open>0\<close>, and the step returns
  normally without touching the state.
\<close>

theorem throttle_waits_within_bounds:
  assumes "THROTTLE_MIN_MS cfg = 100" and "THROTTLE_MAX_MS cfg = 500"
    and "is_double01 (random e)"
  shows "(THROTTLE_ENABLED cfg \<longrightarrow>
           throttleDelay cfg (random e) = \<lfloor>times_double (random e) 400\<rfloor> + 100 \<and>
           100 \<le> throttleDelay cfg (random e) \<and> throttleDelay cfg (random e) < 500 \<and>
           applyThrottling cfg (random e) = Some (throttleDelay cfg (random e)) \<and>
           duration_waited (applyThrottling cfg (random e)) = throttleDelay cfg (random e) \<and>
           throttle_step cfg e s =
             (Inr (), s\<lparr>trace := trace s @ [Slept (throttleDelay cfg (random e))]\<rparr>)) \<and>
         (\<not> THROTTLE_ENABLED cfg \<longrightarrow>
           applyThrottling cfg (random e) = None \<and>
           duration_waited (applyThrottling cfg (random e)) = 0 \<and>
           throttle_step cfg e s = (Inr (), s))"
proof -
  note b = throttleDelay_default_bounds[OF assms]
  have on: "THROTTLE_ENABLED cfg \<longrightarrow>
           throttleDelay cfg (random e) = \<lfloor>times_double (random e) 400\<rfloor> + 100 \<and>
           100 \<le> throttleDelay cfg (random e) \<and> throttleDelay cfg (random e) < 500 \<and>
           applyThrottling cfg (random e) = Some (throttleDelay cfg (random e)) \<and>
           duration_waited (applyThrottling cfg (random e)) = throttleDelay cfg (random e) \<and>
           throttle_step cfg e s =
             (Inr (), s\<lparr>trace := trace s @ [Slept (throttleDelay cfg (random e))]\<rparr>)"
  proof
    assume en: "THROTTLE_ENABLED cfg"
    then have a: "applyThrottling cfg (random e) = Some (throttleDelay cfg (random e))"
      by (simp add: applyThrottling_def)
    then have w: "duration_waited (applyThrottling cfg (random e)) = throttleDelay cfg (random e)"
      by (simp add: duration_waited_def)
    from a have t: "throttle_step cfg e s =
        (Inr (), s\<lparr>trace := trace s @ [Slept (throttleDelay cfg (random e))]\<rparr>)"
      by (simp add: throttle_step_def emit_def)
    from b a w t show "throttleDelay cfg (random e) = \<lfloor>times_double (random e) 400\<rfloor> + 100 \<and>
           100 \<le> throttleDelay cfg (random e) \<and> throttleDelay cfg (random e) < 500 \<and>
           applyThrottling cfg (random e) = Some (throttleDelay cfg (random e)) \<and>
           duration_waited (applyThrottling cfg (random e)) = throttleDelay cfg (random e) \<and>
           throttle_step cfg e s =
             (Inr (), s\<lparr>trace := trace s @ [Slept (throttleDelay cfg (random e))]\<rparr>)"
      by blast
  qed
  have off: "\<not> THROTTLE_ENABLED cfg \<longrightarrow>
           applyThrottling cfg (random e) = None \<and>
           duration_waited (applyThrottling cfg (random e)) = 0 \<and>
           throttle_step cfg e s = (Inr (), s)"
    by (simp add: applyThrottling_def duration_waited_def throttle_step_def js_return_def)
  from on off show ?thesis by (rule conjI)
qed

theorem throttle_waits_within_bounds_witness:
  "is_double01 (random calm_env) \<and> is_double01 sample_0_6475 \<and>
   applyThrottling default_config (random calm_env) = Some 300 \<and>
   duration_waited (applyThrottling default_config (random calm_env)) = 300 \<and>
   throttle_step default_config calm_env init_state =
     (Inr (), init_state\<lparr>trace := [Slept 300]\<rparr>) \<and>
   applyThrottling default_config sample_0_6475 = Some 359 \<and>
   throttle_step default_config (calm_env\<lparr>random := sample_0_6475\<rparr>) init_state =
     (Inr (), init_state\<lparr>trace := [Slept 359]\<rparr>) \<and>
   \<lfloor>double_value sample_0_6475 * 400\<rfloor> + 100 = (358::int) \<and>
   duration_waited
     (applyThrottling (default_config\<lparr>THROTTLE_ENABLED := False\<rparr>) (random calm_env)) = 0 \<and>
   throttle_step (default_config\<lparr>THROTTLE_ENABLED := False\<rparr>) calm_env init_state =
     (Inr (), init_state)"
proof -
  have c: "THROTTLE_MIN_MS default_config = 100" "THROTTLE_MAX_MS default_config = 500"
    "THROTTLE_ENABLED default_config"
    by (simp_all add: default_config_def)
  have c': "THROTTLE_MIN_MS (default_config\<lparr>THROTTLE_ENABLED := False\<rparr>) = 100"
    "THROTTLE_MAX_MS (default_config\<lparr>THROTTLE_ENABLED := False\<rparr>) = 500"
    "\<not> THROTTLE_ENABLED (default_config\<lparr>THROTTLE_ENABLED := False\<rparr>)"
    by (simp_all add: default_config_def)
  have r1: "is_double01 (random calm_env)"
    by (simp add: is_double01_def calm_env_def)
  have r2: "is_double01 sample_0_6475"
    by (simp add: is_double01_def sample_0_6475_def)
  have r2': "is_double01 (random (calm_env\<lparr>random := sample_0_6475\<rparr>))"
    using r2 by simp
  have v1: "\<lfloor>times_double (random calm_env) 400\<rfloor> = 200"
    by (simp add: times_double_def calm_env_def round53_exact)
  have v2: "\<lfloor>times_double sample_0_6475 400\<rfloor> = 259"
    by (simp add: times_double_sample)
  have t0: "trace init_state = []" by (simp add: init_state_def)
  from throttle_waits_within_bounds[OF c(1,2) r1, of init_state] c(3) v1 t0
  have a1: "applyThrottling default_config (random calm_env) = Some 300"
    and a2: "duration_waited (applyThrottling default_config (random calm_env)) = 300"
    and a3: "throttle_step default_config calm_env init_state =
       (Inr (), init_state\<lparr>trace := [Slept 300]\<rparr>)"
    by (simp_all add: duration_waited_def)
  from throttle_waits_within_bounds[OF c(1,2) r2', of init_state] c(3) v2 t0
  have b1: "applyThrottling default_config sample_0_6475 = Some 359"
    and b2: "throttle_step default_config (calm_env\<lparr>random := sample_0_6475\<rparr>) init_state =
       (Inr (), init_state\<lparr>trace := [Slept 359]\<rparr>)"
    by simp_all
  from throttle_waits_within_bounds[OF c'(1,2) r1, of init_state] c'(3)
  have d1: "duration_waited
       (applyThrottling (default_config\<lparr>THROTTLE_ENABLED := False\<rparr>) (random calm_env)) = 0"
    and d2: "throttle_step (default_config\<lparr>THROTTLE_ENABLED := False\<rparr>) calm_env init_state =
       (Inr (), init_state)"
    by blast+
  have x: "\<lfloor>double_value sample_0_6475 * 400\<rfloor> + 100 = (358::int)"
    by (simp add: exact_product_sample)
  from r1 r2 a1 a2 a3 b1 b2 x d1 d2 show ?thesis by blast
qed

section \<open>Reasoning about runs\<close>

lemma preservesD: "preserves I m \<Longrightarrow> I s \<Longrightarrow> m s = (r, s') \<Longrightarrow> I s'"
  unfolding preserves_def by blast

lemma preserves_return: "preserves I (js_return x)"
  by (simp add: preserves_def js_return_def)

lemma preserves_bind:
  assumes "preserves I m" and "\<And>x. preserves I (f x)"
  shows "preserves I (js_bind m f)"
  unfolding preserves_def
proof (intro allI impI)
  fix s r s'
  assume I: "I s" and run: "js_bind m f s = (r, s')"
  obtain r1 s1 where m: "m s = (r1, s1)" by (cases "m s")
  have I1: "I s1" using assms(1) I m by (rule preservesD)
  show "I s'"
  proof (cases r1)
    case (Inl err)
    with run m have "s' = s1" by (simp add: js_bind_def)
    with I1 show ?thesis by simp
  next
    case (Inr x)
    with run m have "f x s1 = (r, s')" by (simp add: js_bind_def)
    with assms(2)[of x] I1 show ?thesis by (rule preservesD)
  qed
qed

lemma preserves_seq: "list_all (preserves I) ms \<Longrightarrow> preserves I (js_seq ms)"
  by (induction ms) (simp_all add: preserves_return preserves_bind)

lemma preserves_try_catch:
  assumes "preserves I m" and "\<And>err. preserves I (h err)"
  shows "preserves I (js_try_catch m h)"
  unfolding preserves_def
proof (intro allI impI)
  fix s r s'
  assume I: "I s" and run: "js_try_catch m h s = (r, s')"
  obtain r1 s1 where m: "m s = (r1, s1)" by (cases "m s")
  have I1: "I s1" using assms(1) I m by (rule preservesD)
  show "I s'"
  proof (cases r1)
    case (Inl err)
    with run m have "h err s1 = (r, s')" by (simp add: js_try_catch_def)
    with assms(2)[of err] I1 show ?thesis by (rule preservesD)
  next
    case (Inr x)
    with run m have "s' = s1" by (simp add: js_try_catch_def)
    with I1 show ?thesis by simp
  qed
qed

lemma preserves_headers:
  "list_all (preserves I) (map (\<lambda>(k, v). setHeader k v) hs) =
     (\<forall>k v. (k, v) \<in> set hs \<longrightarrow> preserves I (setHeader k v))"
  by (auto simp: list_all_iff)

subsection \<open>An event, once in the trace, stays\<close>

lemma keeps_call: "preserves (has_event ev) (call e operation)"
  by (auto simp: preserves_def has_event_def call_def Let_def split: option.splits)

lemma keeps_emit: "preserves (has_event ev) (emit x)"
  by (auto simp: preserves_def has_event_def emit_def)

lemma keeps_assign_browser: "preserves (has_event ev) assign_browser"
  by (auto simp: preserves_def has_event_def assign_browser_def)

lemma keeps_assign_page: "preserves (has_event ev) assign_page"
  by (auto simp: preserves_def has_event_def assign_page_def)

lemma keeps_setHeader: "preserves (has_event ev) (setHeader k v)"
  by (auto simp: preserves_def has_event_def setHeader_def)

lemma keeps_respond: "preserves (has_event ev) (respond c b)"
  by (auto simp: preserves_def has_event_def respond_def)

lemma keeps_throttle_step: "preserves (has_event ev) (throttle_step cfg e)"
  by (simp add: throttle_step_def preserves_return keeps_emit split: option.splits)

lemma keeps_forward_header: "preserves (has_event ev) (forward_header e req n N)"
  by (simp add: forward_header_def preserves_return keeps_call split: option.splits)

lemmas keeps_prims =
  keeps_call keeps_emit keeps_assign_browser keeps_assign_page keeps_setHeader
  keeps_respond keeps_throttle_step keeps_forward_header

lemma keeps_prepare_page: "list_all (preserves (has_event ev)) (prepare_page e req)"
  by (simp add: prepare_page_def keeps_prims)

lemma keeps_render_tail:
  "preserves (has_event ev)
     (js_seq
        ([js_seq [call e NewPage, assign_page]]
         @ prepare_page e req
         @ [call e (Goto targetUrl 25000),
            call e (WaitForTimeout 1000),
            call e Content,
            setHeader ''Content-Type'' ''text/html; charset=utf-8'',
            setHeader ''X-Frame-Options'' ''ALLOWALL'',
            setHeader ''Cache-Control'' ''no-cache, no-store, must-revalidate'',
            setHeader ''Pragma'' ''no-cache'',
            setHeader ''Expires'' ''0'']
         @ map (\<lambda>(k, v). setHeader k v) corsHeaders
         @ [respond 200 (Send (page_html e))]))"
  by (rule preserves_seq)
    (simp add: keeps_prims keeps_prepare_page preserves_bind preserves_return preserves_headers)

lemma keeps_catch_block: "preserves (has_event ev) (catch_block e req err)"
  unfolding catch_block_def
  by (rule preserves_seq) (simp add: keeps_prims preserves_headers)

lemma keeps_close_page: "preserves (has_event ev) (close_page e)"
  by (auto simp: preserves_def has_event_def close_page_def js_when_def js_try_catch_def
      call_def emit_def js_return_def Let_def split: option.splits if_splits)

lemma keeps_close_browser: "preserves (has_event ev) (close_browser e)"
  by (auto simp: preserves_def has_event_def close_browser_def js_when_def js_try_catch_def
      call_def emit_def js_return_def Let_def split: option.splits if_splits)

lemma keeps_finally_block: "preserves (has_event ev) (finally_block e)"
  unfolding finally_block_def
  by (rule preserves_seq) (simp add: keeps_close_page keeps_close_browser)

text \<open>The fetch stage begins with the driver: whatever happens later, the call is in the trace.\<close>

lemma render_calls_driver:
  assumes "render cfg e req u s = (r, s')"
  shows "has_event (Called ExecutablePath) s'"
proof -
  have "\<exists>s1. throttle_step cfg e s = (Inr (), s1)"
    by (cases "applyThrottling cfg (random e)")
      (simp_all add: throttle_step_def js_return_def emit_def)
  then obtain s1 where t: "throttle_step cfg e s = (Inr (), s1)" by blast
  obtain r2 s2 where l: "js_seq [call e ExecutablePath, call e Launch, assign_browser] s1 = (r2, s2)"
    by (cases "js_seq [call e ExecutablePath, call e Launch, assign_browser] s1")
  have h2: "has_event (Called ExecutablePath) s2"
    using l
    by (auto simp: has_event_def call_def js_bind_def js_return_def assign_browser_def Let_def
        split: option.splits)
  show ?thesis
  proof (cases r2)
    case (Inl err)
    with assms t l have "s' = s2" by (simp add: render_def js_bind_def)
    with h2 show ?thesis by simp
  next
    case (Inr x)
    with assms t l have
      "js_seq
        ([js_seq [call e NewPage, assign_page]]
         @ prepare_page e req
         @ [call e (Goto u 25000),
            call e (WaitForTimeout 1000),
            call e Content,
            setHeader ''Content-Type'' ''text/html; charset=utf-8'',
            setHeader ''X-Frame-Options'' ''ALLOWALL'',
            setHeader ''Cache-Control'' ''no-cache, no-store, must-revalidate'',
            setHeader ''Pragma'' ''no-cache'',
            setHeader ''Expires'' ''0'']
         @ map (\<lambda>(k, v). setHeader k v) corsHeaders
         @ [respond 200 (Send (page_html e))]) s2 = (r, s')"
      by (simp add: render_def js_bind_def)
    with keeps_render_tail h2 show ?thesis by (rule preservesD)
  qed
qed

lemma handler_get:
  "req_method req = ''GET'' \<Longrightarrow>
   handler parseURL cfg e req =
     js_finally
       (js_try_catch
          (case validate parseURL req of
             Reject c b \<Rightarrow> respond c (Json b)
           | Proceed targetUrl parsedUrl \<Rightarrow> render cfg e req targetUrl)
          (catch_block e req))
       (finally_block e)"
  by (simp add: handler_def)

lemma handler_calls_driver:
  assumes "req_method req = ''GET''" and "validate parseURL req = Proceed u p"
  shows "Called ExecutablePath \<in> set (trace (snd (handler parseURL cfg e req s)))"
proof -
  obtain r1 s1 where a: "render cfg e req u s = (r1, s1)" by (cases "render cfg e req u s")
  then have h1: "has_event (Called ExecutablePath) s1" by (rule render_calls_driver)
  obtain r2 s2 where b: "js_try_catch (render cfg e req u) (catch_block e req) s = (r2, s2)"
    by (cases "js_try_catch (render cfg e req u) (catch_block e req) s")
  have h2: "has_event (Called ExecutablePath) s2"
  proof (cases r1)
    case (Inl err)
    with a b have "catch_block e req err s1 = (r2, s2)" by (simp add: js_try_catch_def)
    with keeps_catch_block h1 show ?thesis by (rule preservesD)
  next
    case (Inr x)
    with a b have "s2 = s1" by (simp add: js_try_catch_def)
    with h1 show ?thesis by simp
  qed
  obtain r3 s3 where c: "finally_block e s2 = (r3, s3)" by (cases "finally_block e s2")
  with keeps_finally_block h2 have h3: "has_event (Called ExecutablePath) s3" by (rule preservesD)
  have "snd (handler parseURL cfg e req s) = s3"
    using assms b c by (cases r3) (simp_all add: handler_get js_finally_def)
  with h3 show ?thesis by (simp add: has_event_def)
qed

section \<open>The private-address guard: what it matches\<close>

lemmas guard_defs =
  isPrivateIP_def privatePatterns_def pat_localhost_def pat_127_def pat_192_168_def pat_10_def
  pat_172_def pat_v6_loopback_def pat_fc00_def pat_fe80_def startsWith_def toLowerASCII_def

lemma startsWith_append: "startsWith s p \<Longrightarrow> \<exists>rest. s = p @ rest"
  unfolding startsWith_def by (metis append_take_drop_id)

lemma not_private_169_254: "startsWith h ''169.254.'' \<Longrightarrow> \<not> isPrivateIP h"
proof -
  assume "startsWith h ''169.254.''"
  then obtain rest where "h = ''169.254.'' @ rest" using startsWith_append by blast
  then show ?thesis by (simp add: guard_defs)
qed

lemma not_private_bracket: "\<not> isPrivateIP (CHR ''['' # rest)"
  by (simp add: guard_defs)

text \<open>A string spelled with the letters of a lower-case word, each in either case, folds to the word.\<close>

lemma toLowerASCII_either_case:
  assumes "list_all2 (\<lambda>c p. c = fst p \<or> c = snd p) h ps"
    and "list_all (\<lambda>p. toLowerASCII (fst p) = fst p \<and> toLowerASCII (snd p) = fst p) ps"
  shows "map toLowerASCII h = map fst ps"
  using assms by (induction rule: list_all2_induct) auto

lemma isPrivateIP_localhost_any_case:
  assumes "list_all2 (\<lambda>c p. c = fst p \<or> c = snd p) l (zip ''localhost'' ''LOCALHOST'')"
  shows "isPrivateIP l"
proof -
  have "list_all (\<lambda>p. toLowerASCII (fst p) = fst p \<and> toLowerASCII (snd p) = fst p)
          (zip ''localhost'' ''LOCALHOST'')"
    by (simp add: toLowerASCII_def)
  with assms have "map toLowerASCII l = map fst (zip ''localhost'' ''LOCALHOST'')"
    by (rule toLowerASCII_either_case)
  then have "pat_localhost l" by (simp add: pat_localhost_def)
  then show ?thesis by (simp add: isPrivateIP_def privatePatterns_def)
qed

lemma isPrivateIP_172:
  assumes "oct \<in> set [''16'', ''17'', ''18'', ''19'', ''20'', ''21'', ''22'', ''23'',
                       ''24'', ''25'', ''26'', ''27'', ''28'', ''29'', ''30'', ''31'']"
  shows "isPrivateIP (''172.'' @ oct @ ''.'' @ r)"
  using assms by (auto simp: guard_defs)

lemma isPrivateIP_listed:
  "isPrivateIP ''::1'' \<and>
   isPrivateIP (''127.'' @ r) \<and> isPrivateIP (''192.168.'' @ r) \<and> isPrivateIP (''10.'' @ r) \<and>
   isPrivateIP (''fc00:'' @ r) \<and> isPrivateIP (''fe80:'' @ r)"
  by (simp add: guard_defs)

lemma finally_block_idle:
  "\<not> page s \<Longrightarrow> \<not> browser s \<Longrightarrow> finally_block e s = (Inr (), s)"
  by (simp add: finally_block_def close_page_def close_browser_def js_when_def js_bind_def
      js_return_def)

lemma handler_rejects:
  assumes "req_method req = ''GET''" and "validate parseURL req = Reject c b"
  shows "handler parseURL cfg e req init_state =
           (Inr (), init_state\<lparr>sent := Some (c, Json b)\<rparr>)"
proof -
  have "finally_block e (init_state\<lparr>sent := Some (c, Json b)\<rparr>) =
          (Inr (), init_state\<lparr>sent := Some (c, Json b)\<rparr>)"
    by (rule finally_block_idle) (simp_all add: init_state_def)
  then show ?thesis
    using assms by (simp add: handler_get js_finally_def js_try_catch_def respond_def)
qed

lemma validate_private:
  assumes "query_url req = Some u" and "u \<noteq> []" and "parseURL u = Some p"
    and "isPrivateIP (hostname p)"
  shows "validate parseURL req =
           Reject 403 [(''error'', JString ''Access to private IPs is not allowed''),
                       (''hostname'', JString (hostname p))]"
  using assms by (simp add: validate_def)

lemma validate_public:
  assumes "query_url req = Some u" and "u \<noteq> []" and "parseURL u = Some p"
    and "\<not> isPrivateIP (hostname p)"
  shows "validate parseURL req = Proceed u p"
  using assms by (simp add: validate_def)

text \<open>
  Claim C1, as amended. A hostname that begins with \<^verbatim>\<open>169.254.\<close> matches none of the
  eight patterns: \<^verbatim>\<open>isPrivateIP\<close> returns false for it, validation lets a GET request
  for it proceed, and the handler goes on to the browser. What the guard does match is
  \<^verbatim>\<open>localhost\<close> in any letter case, \<^verbatim>\<open>::1\<close>, and every hostname that begins with
  \<^verbatim>\<open>127.\<close>, \<^verbatim>\<open>192.168.\<close>, \<^verbatim>\<open>10.\<close>, \<^verbatim>\<open>172.16.\<close> to \<^verbatim>\<open>172.31.\<close>, \<^verbatim>\<open>fc00:\<close> or
  \<^verbatim>\<open>fe80:\<close>; a GET request whose parsed hostname the guard matches is answered with
  status 403 and the hostname, and no driver call is made.
\<close>

theorem guard_covers_listed_literals_only:
  "(startsWith h ''169.254.'' \<longrightarrow> \<not> isPrivateIP h) \<and>
   (req_method req = ''GET'' \<and> query_url req = Some u \<and> u \<noteq> [] \<and> parseURL u = Some p \<and>
    startsWith (hostname p) ''169.254.'' \<longrightarrow>
      validate parseURL req = Proceed u p \<and>
      Called ExecutablePath \<in> set (trace (snd (handler parseURL cfg e req init_state)))) \<and>
   (req_method req = ''GET'' \<and> query_url req = Some u \<and> u \<noteq> [] \<and> parseURL u = Some p \<and>
    isPrivateIP (hostname p) \<longrightarrow>
      handler parseURL cfg e req init_state =
        (Inr (), init_state\<lparr>sent :=
           Some (403, Json [(''error'', JString ''Access to private IPs is not allowed''),
                            (''hostname'', JString (hostname p))])\<rparr>)) \<and>
   (list_all2 (\<lambda>c p. c = fst p \<or> c = snd p) l (zip ''localhost'' ''LOCALHOST'') \<longrightarrow>
      isPrivateIP l) \<and>
   (oct \<in> set [''16'', ''17'', ''18'', ''19'', ''20'', ''21'', ''22'', ''23'',
               ''24'', ''25'', ''26'', ''27'', ''28'', ''29'', ''30'', ''31''] \<longrightarrow>
      isPrivateIP (''172.'' @ oct @ ''.'' @ r)) \<and>
   isPrivateIP ''::1'' \<and>
   isPrivateIP (''127.'' @ r) \<and> isPrivateIP (''192.168.'' @ r) \<and> isPrivateIP (''10.'' @ r) \<and>
   isPrivateIP (''fc00:'' @ r) \<and> isPrivateIP (''fe80:'' @ r)"
proof -
  have a: "startsWith h ''169.254.'' \<longrightarrow> \<not> isPrivateIP h"
    by (simp add: not_private_169_254)
  have b: "req_method req = ''GET'' \<and> query_url req = Some u \<and> u \<noteq> [] \<and> parseURL u = Some p \<and>
      startsWith (hostname p) ''169.254.'' \<longrightarrow>
      validate parseURL req = Proceed u p \<and>
      Called ExecutablePath \<in> set (trace (snd (handler parseURL cfg e req init_state)))"
  proof (intro impI, elim conjE)
    assume h: "req_method req = ''GET''" "query_url req = Some u" "u \<noteq> []" "parseURL u = Some p"
      "startsWith (hostname p) ''169.254.''"
    from h(5) have "\<not> isPrivateIP (hostname p)" by (rule not_private_169_254)
    with h(2,3,4) have v: "validate parseURL req = Proceed u p" by (rule validate_public)
    with h(1) show "validate parseURL req = Proceed u p \<and>
      Called ExecutablePath \<in> set (trace (snd (handler parseURL cfg e req init_state)))"
      by (simp add: handler_calls_driver)
  qed
  have c: "req_method req = ''GET'' \<and> query_url req = Some u \<and> u \<noteq> [] \<and> parseURL u = Some p \<and>
      isPrivateIP (hostname p) \<longrightarrow>
      handler parseURL cfg e req init_state =
        (Inr (), init_state\<lparr>sent :=
           Some (403, Json [(''error'', JString ''Access to private IPs is not allowed''),
                            (''hostname'', JString (hostname p))])\<rparr>)"
  proof (intro impI, elim conjE)
    assume h: "req_method req = ''GET''" "query_url req = Some u" "u \<noteq> []" "parseURL u = Some p"
      "isPrivateIP (hostname p)"
    from h(2,3,4,5) have "validate parseURL req =
        Reject 403 [(''error'', JString ''Access to private IPs is not allowed''),
                    (''hostname'', JString (hostname p))]"
      by (rule validate_private)
    with h(1) show "handler parseURL cfg e req init_state =
        (Inr (), init_state\<lparr>sent :=
           Some (403, Json [(''error'', JString ''Access to private IPs is not allowed''),
                            (''hostname'', JString (hostname p))])\<rparr>)"
      by (rule handler_rejects)
  qed
  have d: "list_all2 (\<lambda>c p. c = fst p \<or> c = snd p) l (zip ''localhost'' ''LOCALHOST'') \<longrightarrow>
      isPrivateIP l"
    by (intro impI) (rule isPrivateIP_localhost_any_case)
  have f: "oct \<in> set [''16'', ''17'', ''18'', ''19'', ''20'', ''21'', ''22'', ''23'',
               ''24'', ''25'', ''26'', ''27'', ''28'', ''29'', ''30'', ''31''] \<longrightarrow>
      isPrivateIP (''172.'' @ oct @ ''.'' @ r)"
    by (intro impI) (rule isPrivateIP_172)
  from a b c d f isPrivateIP_listed[of r] show ?thesis by blast
qed

theorem guard_covers_listed_literals_only_witness:
  "\<not> isPrivateIP ''169.254.169.254'' \<and>
   validate sample_parser (request_of ''GET'' ''http://169.254.169.254/latest/meta-data/'' []) =
     Proceed ''http://169.254.169.254/latest/meta-data/''
       \<lparr>hostname = ''169.254.169.254'', origin = ''http://169.254.169.254'',
          href = ''http://169.254.169.254/latest/meta-data/''\<rparr> \<and>
   handler sample_parser default_config calm_env
       (request_of ''GET'' ''http://localhost:8080/admin'' []) init_state =
     (Inr (), init_state\<lparr>sent :=
        Some (403, Json [(''error'', JString ''Access to private IPs is not allowed''),
                         (''hostname'', JString ''localhost'')])\<rparr>) \<and>
   isPrivateIP ''LocalHost'' \<and> isPrivateIP ''172.20.0.1''"
proof -
  have s1: "startsWith ''169.254.169.254'' ''169.254.''" by (simp add: startsWith_def)
  have s2: "list_all2 (\<lambda>c p. c = fst p \<or> c = snd p) ''LocalHost''
              (zip ''localhost'' ''LOCALHOST'')"
    by simp
  have s3: "''20'' \<in> set [''16'', ''17'', ''18'', ''19'', ''20'', ''21'', ''22'', ''23'',
               ''24'', ''25'', ''26'', ''27'', ''28'', ''29'', ''30'', ''31'']"
    by simp
  have l: "isPrivateIP ''localhost''" by (simp add: guard_defs)
  have g1: "\<not> isPrivateIP ''169.254.169.254'' \<and>
     validate sample_parser (request_of ''GET'' ''http://169.254.169.254/latest/meta-data/'' []) =
       Proceed ''http://169.254.169.254/latest/meta-data/''
         \<lparr>hostname = ''169.254.169.254'', origin = ''http://169.254.169.254'',
            href = ''http://169.254.169.254/latest/meta-data/''\<rparr> \<and>
     isPrivateIP ''LocalHost'' \<and> isPrivateIP (''172.'' @ ''20'' @ ''.'' @ ''0.1'')"
    using guard_covers_listed_literals_only[where h = "''169.254.169.254''"
        and req = "request_of ''GET'' ''http://169.254.169.254/latest/meta-data/'' []"
        and u = "''http://169.254.169.254/latest/meta-data/''" and parseURL = sample_parser
        and p = "\<lparr>hostname = ''169.254.169.254'', origin = ''http://169.254.169.254'',
          href = ''http://169.254.169.254/latest/meta-data/''\<rparr>"
        and cfg = default_config and e = calm_env
        and l = "''LocalHost''" and oct = "''20''" and r = "''0.1''"] s1 s2 s3
    by (simp add: sample_parser_def request_of_def)
  have g2: "handler sample_parser default_config calm_env
       (request_of ''GET'' ''http://localhost:8080/admin'' []) init_state =
     (Inr (), init_state\<lparr>sent :=
        Some (403, Json [(''error'', JString ''Access to private IPs is not allowed''),
                         (''hostname'', JString ''localhost'')])\<rparr>)"
    using guard_covers_listed_literals_only[where h = "''169.254.169.254''"
        and req = "request_of ''GET'' ''http://localhost:8080/admin'' []"
        and u = "''http://localhost:8080/admin''" and parseURL = sample_parser
        and p = "\<lparr>hostname = ''localhost'', origin = ''http://localhost:8080'',
          href = ''http://localhost:8080/admin''\<rparr>"
        and cfg = default_config and e = calm_env
        and l = "''LocalHost''" and oct = "''20''" and r = "''0.1''"] l
    by (simp add: sample_parser_def request_of_def)
  from g1 g2 show ?thesis by simp
qed

text \<open>
  The cloud metadata address \<^verbatim>\<open>169.254.169.254\<close> begins with \<^verbatim>\<open>169.254.\<close>, and the guard
  returns false for it: a GET request for it passes validation.
\<close>

theorem link_local_literal_not_blocked:
  "startsWith ''169.254.169.254'' ''169.254.'' \<and> \<not> isPrivateIP ''169.254.169.254'' \<and>
   validate sample_parser (request_of ''GET'' ''http://169.254.169.254/latest/meta-data/'' []) =
     Proceed ''http://169.254.169.254/latest/meta-data/''
       \<lparr>hostname = ''169.254.169.254'', origin = ''http://169.254.169.254'',
          href = ''http://169.254.169.254/latest/meta-data/''\<rparr>"
  by (simp add: guard_defs validate_def sample_parser_def request_of_def)

text \<open>
  Claim C2. When the parser gives a hostname in brackets, as it does for every IPv6
  literal, no pattern of the guard matches it: the patterns for \<^verbatim>\<open>::1\<close>, \<^verbatim>\<open>fc00:\<close> and
  \<^verbatim>\<open>fe80:\<close> are anchored at the first character, which is the bracket. So
  \<^verbatim>\<open>isPrivateIP\<close> returns false for \<^verbatim>\<open>[::1]\<close>, \<^verbatim>\<open>[fc00::1]\<close> and \<^verbatim>\<open>[fe80::1]\<close>, a GET
  request for such a target passes validation instead of being answered 403, and the
  handler runs the fetch stage and calls the driver.
\<close>

theorem ipv6_literal_passes_guard:
  assumes "req_method req = ''GET''" and "query_url req = Some u" and "u \<noteq> []"
    and "parseURL u = Some p" and "hostname p = CHR ''['' # rest"
  shows "\<not> isPrivateIP (hostname p) \<and>
         validate parseURL req = Proceed u p \<and>
         handler parseURL cfg e req =
           js_finally (js_try_catch (render cfg e req u) (catch_block e req)) (finally_block e) \<and>
         Called ExecutablePath \<in> set (trace (snd (handler parseURL cfg e req init_state))) \<and>
         \<not> isPrivateIP ''[::1]'' \<and> \<not> isPrivateIP ''[fc00::1]'' \<and> \<not> isPrivateIP ''[fe80::1]''"
proof -
  have n: "\<not> isPrivateIP (hostname p)" using assms(5) by (simp add: not_private_bracket)
  with assms(2,3,4) have v: "validate parseURL req = Proceed u p" by (rule validate_public)
  have h: "handler parseURL cfg e req =
           js_finally (js_try_catch (render cfg e req u) (catch_block e req)) (finally_block e)"
    using assms(1) v by (simp add: handler_get)
  have d: "Called ExecutablePath \<in> set (trace (snd (handler parseURL cfg e req init_state)))"
    using assms(1) v by (rule handler_calls_driver)
  have lits: "\<not> isPrivateIP ''[::1]'' \<and> \<not> isPrivateIP ''[fc00::1]'' \<and> \<not> isPrivateIP ''[fe80::1]''"
    by (simp add: not_private_bracket)
  from n v h d lits show ?thesis by simp
qed

theorem ipv6_literal_passes_guard_witness:
  "\<not> isPrivateIP ''[::1]'' \<and>
   validate sample_parser (request_of ''GET'' ''http://[::1]/'' []) =
     Proceed ''http://[::1]/''
       \<lparr>hostname = ''[::1]'', origin = ''http://[::1]'', href = ''http://[::1]/''\<rparr> \<and>
   Called ExecutablePath \<in>
     set (trace (snd (handler sample_parser default_config calm_env
                        (request_of ''GET'' ''http://[::1]/'' []) init_state)))"
proof -
  let ?req = "request_of ''GET'' ''http://[::1]/'' []"
  let ?p = "\<lparr>hostname = ''[::1]'', origin = ''http://[::1]'', href = ''http://[::1]/''\<rparr>"
  have h: "req_method ?req = ''GET''" "query_url ?req = Some ''http://[::1]/''"
    "''http://[::1]/'' \<noteq> []" "sample_parser ''http://[::1]/'' = Some ?p"
    "hostname ?p = CHR ''['' # ''::1]''"
    by (simp_all add: request_of_def sample_parser_def)
  from ipv6_literal_passes_guard[of ?req "''http://[::1]/''" sample_parser ?p "''::1]''"
      default_config calm_env, OF h]
  show ?thesis by blast
qed

section \<open>Evaluating a run\<close>

lemmas run_defs =
  js_finally_def js_try_catch_def js_bind_def js_return_def js_when_def call_def emit_def
  assign_browser_def assign_page_def setHeader_def respond_def Let_def

lemmas handler_eval_defs =
  handler_def request_of_def validate_def sample_parser_def guard_defs render_def
  prepare_page_def forward_header_def throttle_step_def applyThrottling_def throttleDelay_half
  default_config_def run_defs init_state_def Error_def catch_block_def finally_block_def
  close_page_def close_browser_def corsHeaders_def error_body_def

lemmas learn_eval_defs =
  learn_def declare_page_def initBrowser_def request_of_def validate_learn_def sample_parser_def
  guard_defs render_learn_def prepare_page_def forward_header_def throttle_step_def
  applyThrottling_def throttleDelay_half default_config_def run_defs init_state_def Error_def
  catch_block_learn_def close_page_def error_body_def

section \<open>Method dispatch of the render endpoint\<close>

lemma learn_endpoint_passes:
  "middleware req = Passes \<Longrightarrow>
   learn_endpoint middleware parseURL cfg e req =
     (if req_method req = ''GET'' \<or> req_method req = ''HEAD''
      then learn parseURL cfg e req else notFound)"
  by (simp add: learn_endpoint_def)

text \<open>
  Claim C9, as amended. In the serverless handler, a request whose method is neither
  \<^verbatim>\<open>GET\<close> nor \<^verbatim>\<open>OPTIONS\<close> is answered with status 405 and the body
  \<^verbatim>\<open>{error: 'Method not allowed', allowedMethods: ['GET']}\<close>, and nothing else happens;
  a request with method \<^verbatim>\<open>OPTIONS\<close> is answered with status 200 and the body
  \<^verbatim>\<open>{message: 'CORS preflight'}\<close>. In the persistent server, a request for \<^verbatim>\<open>/learn\<close>
  that the middleware passes on and whose method is neither \<^verbatim>\<open>GET\<close> nor \<^verbatim>\<open>HEAD\<close> is
  answered with status 404 and the body
  \<^verbatim>\<open>{error: 'Endpoint not found', availableEndpoints: ['/health', '/learn']}\<close>, and nothing
  else happens; one whose method is \<^verbatim>\<open>HEAD\<close> is handled as a \<^verbatim>\<open>GET\<close> request is.
\<close>

theorem non_get_methods_405_except_options:
  "(req_method req \<noteq> ''GET'' \<and> req_method req \<noteq> ''OPTIONS'' \<longrightarrow>
      handler parseURL cfg e req init_state =
        (Inr (), init_state\<lparr>sent :=
           Some (405, Json [(''error'', JString ''Method not allowed''),
                            (''allowedMethods'', JArray [''GET''])])\<rparr>)) \<and>
   (req_method req = ''OPTIONS'' \<longrightarrow>
      handler parseURL cfg e req init_state =
        (Inr (), init_state\<lparr>sent :=
           Some (200, Json [(''message'', JString ''CORS preflight'')])\<rparr>)) \<and>
   (middleware req = Passes \<and> req_method req \<noteq> ''GET'' \<and> req_method req \<noteq> ''HEAD'' \<longrightarrow>
      learn_endpoint middleware parseURL cfg e req s =
        (Inr (), s\<lparr>sent :=
           Some (404, Json [(''error'', JString ''Endpoint not found''),
                            (''availableEndpoints'', JArray [''/health'', ''/learn''])])\<rparr>)) \<and>
   (middleware req = Passes \<and> req_method req = ''HEAD'' \<longrightarrow>
      learn_endpoint middleware parseURL cfg e req s = learn parseURL cfg e req s)"
  by (simp add: handler_def respond_def learn_endpoint_passes notFound_def)

theorem non_get_methods_405_except_options_witness:
  "handler sample_parser default_config calm_env (request_of ''POST'' ''https://example.com'' [])
     init_state =
     (Inr (), init_state\<lparr>sent :=
        Some (405, Json [(''error'', JString ''Method not allowed''),
                         (''allowedMethods'', JArray [''GET''])])\<rparr>) \<and>
   handler sample_parser default_config calm_env (request_of ''OPTIONS'' ''https://example.com'' [])
     init_state =
     (Inr (), init_state\<lparr>sent := Some (200, Json [(''message'', JString ''CORS preflight'')])\<rparr>) \<and>
   learn_endpoint (\<lambda>req. Passes) sample_parser default_config calm_env
     (request_of ''POST'' ''https://example.com'' []) init_state =
     (Inr (), init_state\<lparr>sent :=
        Some (404, Json [(''error'', JString ''Endpoint not found''),
                         (''availableEndpoints'', JArray [''/health'', ''/learn''])])\<rparr>) \<and>
   learn_endpoint (\<lambda>req. Passes) sample_parser default_config calm_env
     (request_of ''HEAD'' ''https://example.com'' []) init_state =
   learn sample_parser default_config calm_env
     (request_of ''HEAD'' ''https://example.com'' []) init_state"
  using non_get_methods_405_except_options[where req = "request_of ''POST'' ''https://example.com'' []"
      and parseURL = sample_parser and cfg = default_config and e = calm_env
      and middleware = "\<lambda>req. Passes" and s = init_state]
    non_get_methods_405_except_options[where req = "request_of ''OPTIONS'' ''https://example.com'' []"
      and parseURL = sample_parser and cfg = default_config and e = calm_env
      and middleware = "\<lambda>req. Passes" and s = init_state]
    non_get_methods_405_except_options[where req = "request_of ''HEAD'' ''https://example.com'' []"
      and parseURL = sample_parser and cfg = default_config and e = calm_env
      and middleware = "\<lambda>req. Passes" and s = init_state]
  by (simp add: request_of_def)

text \<open>
  Three requests that are not GET requests and are not answered 405: \<^verbatim>\<open>OPTIONS\<close> to the
  serverless handler is answered 200; \<^verbatim>\<open>POST\<close> to \<^verbatim>\<open>/learn\<close> of the persistent server
  is answered 404, with a list of endpoints and no list of methods; \<^verbatim>\<open>HEAD\<close> to
  \<^verbatim>\<open>/learn\<close> runs the handler, which answers 200 with the page.
\<close>

theorem non_get_answered_200_and_404:
  "req_method (request_of ''OPTIONS'' ''https://example.com'' []) \<noteq> ''GET'' \<and>
   sent (snd (handler sample_parser default_config calm_env
                (request_of ''OPTIONS'' ''https://example.com'' []) init_state)) =
     Some (200, Json [(''message'', JString ''CORS preflight'')]) \<and>
   req_method (request_of ''POST'' ''https://example.com'' []) \<noteq> ''GET'' \<and>
   sent (snd (learn_endpoint (\<lambda>req. Passes) sample_parser default_config calm_env
                (request_of ''POST'' ''https://example.com'' []) init_state)) =
     Some (404, Json [(''error'', JString ''Endpoint not found''),
                      (''availableEndpoints'', JArray [''/health'', ''/learn''])]) \<and>
   req_method (request_of ''HEAD'' ''https://example.com'' []) \<noteq> ''GET'' \<and>
   sent (snd (learn_endpoint (\<lambda>req. Passes) sample_parser default_config calm_env
                (request_of ''HEAD'' ''https://example.com'' []) init_state)) =
     Some (200, Send ''<html></html>'')"
proof -
  have a: "sent (snd (handler sample_parser default_config calm_env
                (request_of ''OPTIONS'' ''https://example.com'' []) init_state)) =
     Some (200, Json [(''message'', JString ''CORS preflight'')])"
    by (simp add: handler_def respond_def request_of_def)
  have b: "sent (snd (learn_endpoint (\<lambda>req. Passes) sample_parser default_config calm_env
                (request_of ''POST'' ''https://example.com'' []) init_state)) =
     Some (404, Json [(''error'', JString ''Endpoint not found''),
                      (''availableEndpoints'', JArray [''/health'', ''/learn''])])"
    by (simp add: learn_endpoint_def notFound_def respond_def request_of_def)
  have c: "sent (snd (learn_endpoint (\<lambda>req. Passes) sample_parser default_config calm_env
                (request_of ''HEAD'' ''https://example.com'' []) init_state)) =
     Some (200, Send ''<html></html>'')"
    by (simp add: learn_endpoint_def learn_eval_defs calm_env_def)
  from a b c show ?thesis by (simp add: request_of_def)
qed

section \<open>Release of the page and the browser\<close>

subsection \<open>The handles a run holds are the ones it acquired\<close>

lemma page_tracked_call:
  "operation \<noteq> NewPage \<Longrightarrow> preserves (page_tracked e) (call e operation)"
  by (auto simp: preserves_def page_tracked_def call_def Let_def split: option.splits)

lemma page_tracked_newPage: "preserves (page_tracked e) (js_seq [call e NewPage, assign_page])"
  by (auto simp: preserves_def page_tracked_def call_def js_bind_def js_return_def
      assign_page_def Let_def split: option.splits)

lemma page_tracked_emit: "ev \<noteq> Called NewPage \<Longrightarrow> preserves (page_tracked e) (emit ev)"
  by (auto simp: preserves_def page_tracked_def emit_def)

lemma page_tracked_assign_browser: "preserves (page_tracked e) assign_browser"
  by (auto simp: preserves_def page_tracked_def assign_browser_def)

lemma page_tracked_setHeader: "preserves (page_tracked e) (setHeader k v)"
  by (auto simp: preserves_def page_tracked_def setHeader_def)

lemma page_tracked_respond: "preserves (page_tracked e) (respond c b)"
  by (auto simp: preserves_def page_tracked_def respond_def)

lemma page_tracked_throttle_step: "preserves (page_tracked e) (throttle_step cfg e)"
  by (simp add: throttle_step_def preserves_return page_tracked_emit split: option.splits)

lemma page_tracked_forward_header: "preserves (page_tracked e) (forward_header e req n N)"
  by (simp add: forward_header_def preserves_return page_tracked_call split: option.splits)

lemma page_tracked_initBrowser: "preserves (page_tracked e) (initBrowser e)"
  by (auto simp: preserves_def page_tracked_def initBrowser_def call_def js_bind_def
      js_return_def assign_browser_def Let_def split: option.splits if_splits)

lemmas page_tracked_prims =
  page_tracked_call page_tracked_newPage page_tracked_emit page_tracked_assign_browser
  page_tracked_setHeader page_tracked_respond page_tracked_throttle_step
  page_tracked_forward_header page_tracked_initBrowser

lemma page_tracked_prepare_page: "list_all (preserves (page_tracked e)) (prepare_page e req)"
  by (simp add: prepare_page_def page_tracked_prims)

lemma page_tracked_render: "preserves (page_tracked e) (render cfg e req u)"
  unfolding render_def
  by (rule preserves_seq)
    (simp add: page_tracked_prims page_tracked_prepare_page preserves_bind preserves_return
      preserves_headers del: js_seq.simps,
     simp add: page_tracked_prims preserves_bind preserves_return)

lemma page_tracked_render_learn: "preserves (page_tracked e) (render_learn cfg e req u)"
  unfolding render_learn_def
  by (rule preserves_seq)
    (simp add: page_tracked_prims page_tracked_prepare_page preserves_headers del: js_seq.simps)

lemma page_tracked_catch_block: "preserves (page_tracked e) (catch_block e req err)"
  unfolding catch_block_def
  by (rule preserves_seq) (simp add: page_tracked_prims preserves_headers)

lemma page_tracked_catch_block_learn: "preserves (page_tracked e) (catch_block_learn e req err)"
  unfolding catch_block_learn_def
  by (rule preserves_seq) (simp add: page_tracked_prims)

lemma browser_tracked_call:
  "operation \<noteq> Launch \<Longrightarrow> preserves (browser_tracked e) (call e operation)"
  by (auto simp: preserves_def browser_tracked_def call_def Let_def split: option.splits)

lemma browser_tracked_launch:
  "preserves (browser_tracked e) (js_seq [call e ExecutablePath, call e Launch, assign_browser])"
  by (auto simp: preserves_def browser_tracked_def call_def js_bind_def js_return_def
      assign_browser_def Let_def split: option.splits)

lemma browser_tracked_newPage:
  "preserves (browser_tracked e) (js_seq [call e NewPage, assign_page])"
  by (auto simp: preserves_def browser_tracked_def call_def js_bind_def js_return_def
      assign_page_def Let_def split: option.splits)

lemma browser_tracked_emit: "ev \<noteq> Called Launch \<Longrightarrow> preserves (browser_tracked e) (emit ev)"
  by (auto simp: preserves_def browser_tracked_def emit_def)

lemma browser_tracked_setHeader: "preserves (browser_tracked e) (setHeader k v)"
  by (auto simp: preserves_def browser_tracked_def setHeader_def)

lemma browser_tracked_respond: "preserves (browser_tracked e) (respond c b)"
  by (auto simp: preserves_def browser_tracked_def respond_def)

lemma browser_tracked_throttle_step: "preserves (browser_tracked e) (throttle_step cfg e)"
  by (simp add: throttle_step_def preserves_return browser_tracked_emit split: option.splits)

lemma browser_tracked_forward_header: "preserves (browser_tracked e) (forward_header e req n N)"
  by (simp add: forward_header_def preserves_return browser_tracked_call split: option.splits)

lemmas browser_tracked_prims =
  browser_tracked_call browser_tracked_launch browser_tracked_newPage browser_tracked_emit
  browser_tracked_setHeader browser_tracked_respond browser_tracked_throttle_step
  browser_tracked_forward_header

lemma browser_tracked_prepare_page:
  "list_all (preserves (browser_tracked e)) (prepare_page e req)"
  by (simp add: prepare_page_def browser_tracked_prims)

lemma browser_tracked_render: "preserves (browser_tracked e) (render cfg e req u)"
  unfolding render_def
  by (rule preserves_seq)
    (simp add: browser_tracked_prims browser_tracked_prepare_page preserves_headers
      del: js_seq.simps)

lemma browser_tracked_catch_block: "preserves (browser_tracked e) (catch_block e req err)"
  unfolding catch_block_def
  by (rule preserves_seq) (simp add: browser_tracked_prims preserves_headers)

subsection \<open>The blocks that never throw\<close>

lemma headers_run:
  "js_seq (map (\<lambda>(k, v). setHeader k v) hs @ ms) s =
     js_seq ms (s\<lparr>res_headers := foldl (\<lambda>acc (k, v). AList.update k v acc) (res_headers s) hs\<rparr>)"
  by (induction hs arbitrary: s) (simp_all add: js_bind_def setHeader_def split: prod.splits)

lemma catch_block_run:
  "catch_block e req err s =
     (Inr (),
      s\<lparr>trace := trace s @ [Logged (message err)],
        res_headers := foldl (\<lambda>acc (k, v). AList.update k v acc) (res_headers s) corsHeaders,
        sent := Some (snd (classify (message err)),
                      error_body e req err (classify (message err)))\<rparr>)"
  unfolding catch_block_def
  by (simp add: headers_run js_bind_def emit_def respond_def js_return_def)

lemma catch_block_learn_run:
  "catch_block_learn e req err s =
     (Inr (),
      s\<lparr>trace := trace s @ [Logged (message err)],
        sent := Some (snd (classify_learn (message err)),
                      error_body e req err (classify_learn (message err)))\<rparr>)"
  unfolding catch_block_learn_def
  by (simp add: js_bind_def emit_def respond_def js_return_def)

lemma close_page_run:
  "close_page e s =
     (Inr (),
      s\<lparr>trace := trace s @
          (if page s then
             Called ClosePage #
               (case fails e ClosePage of
                  None \<Rightarrow> []
                | Some err \<Rightarrow> [Warned (''Warning: Could not close page: '' @ message err)])
           else [])\<rparr>)"
  by (simp add: close_page_def js_when_def js_try_catch_def call_def emit_def js_return_def
      Let_def split: option.splits)

lemma close_browser_run:
  "close_browser e s =
     (Inr (),
      s\<lparr>trace := trace s @
          (if browser s then
             Called CloseBrowser #
               (case fails e CloseBrowser of
                  None \<Rightarrow> []
                | Some err \<Rightarrow> [Warned (''Warning: Could not close browser: '' @ message err)])
           else [])\<rparr>)"
  by (simp add: close_browser_def js_when_def js_try_catch_def call_def emit_def js_return_def
      Let_def split: option.splits)

lemma finally_block_run:
  "finally_block e s =
     (Inr (),
      s\<lparr>trace := trace s @
          (if page s then
             Called ClosePage #
               (case fails e ClosePage of
                  None \<Rightarrow> []
                | Some err \<Rightarrow> [Warned (''Warning: Could not close page: '' @ message err)])
           else []) @
          (if browser s then
             Called CloseBrowser #
               (case fails e CloseBrowser of
                  None \<Rightarrow> []
                | Some err \<Rightarrow> [Warned (''Warning: Could not close browser: '' @ message err)])
           else [])\<rparr>)"
  by (simp add: finally_block_def js_bind_def js_return_def close_page_run close_browser_run)

subsection \<open>What the cleanup does not influence\<close>

lemma call_cleanup_irrelevant:
  "operation \<noteq> ClosePage \<Longrightarrow> operation \<noteq> CloseBrowser \<Longrightarrow>
   call (e\<lparr>fails := (fails e)(ClosePage := x, CloseBrowser := y)\<rparr>) operation = call e operation"
  by (rule ext) (simp add: call_def)

lemma forward_header_cleanup_irrelevant:
  "forward_header (e\<lparr>fails := (fails e)(ClosePage := x, CloseBrowser := y)\<rparr>) req n N =
   forward_header e req n N"
  by (simp add: forward_header_def call_cleanup_irrelevant split: option.splits)

lemma render_cleanup_irrelevant:
  "render cfg (e\<lparr>fails := (fails e)(ClosePage := x, CloseBrowser := y)\<rparr>) req u =
   render cfg e req u"
  by (simp add: render_def prepare_page_def forward_header_cleanup_irrelevant throttle_step_def
      call_cleanup_irrelevant del: js_seq.simps)

lemma render_learn_cleanup_irrelevant:
  "render_learn cfg (e\<lparr>fails := (fails e)(ClosePage := x, CloseBrowser := y)\<rparr>) req u =
   render_learn cfg e req u"
proof -
  have "initBrowser (e\<lparr>fails := (fails e)(ClosePage := x, CloseBrowser := y)\<rparr>) = initBrowser e"
    by (rule ext) (simp add: initBrowser_def call_cleanup_irrelevant)
  then show ?thesis
    by (simp add: render_learn_def prepare_page_def forward_header_cleanup_irrelevant
        throttle_step_def call_cleanup_irrelevant del: js_seq.simps)
qed

lemma catch_block_cleanup_irrelevant:
  "catch_block (e\<lparr>fails := f\<rparr>) req = catch_block e req"
  by (rule ext) (simp add: catch_block_def error_body_def)

lemma catch_block_learn_cleanup_irrelevant:
  "catch_block_learn (e\<lparr>fails := f\<rparr>) req = catch_block_learn e req"
  by (rule ext) (simp add: catch_block_learn_def error_body_def)

subsection \<open>The serverless handler\<close>

text \<open>The \<^verbatim>\<open>try\<close>/\<^verbatim>\<open>catch\<close> of the serverless handler, before its \<^verbatim>\<open>finally\<close>.\<close>

lemma attempt_returns:
  "fst (js_try_catch
          (case validate parseURL req of
             Reject c b \<Rightarrow> respond c (Json b)
           | Proceed targetUrl parsedUrl \<Rightarrow> render cfg e req targetUrl)
          (catch_block e req) s) = Inr ()"
  by (simp add: js_try_catch_def catch_block_run split: prod.splits sum.splits)

lemma attempt_tracks_page:
  "preserves (page_tracked e)
     (js_try_catch
        (case validate parseURL req of
           Reject c b \<Rightarrow> respond c (Json b)
         | Proceed targetUrl parsedUrl \<Rightarrow> render cfg e req targetUrl)
        (catch_block e req))"
  by (rule preserves_try_catch)
    (simp_all add: page_tracked_respond page_tracked_render page_tracked_catch_block
      split: validation.splits)

lemma attempt_tracks_browser:
  "preserves (browser_tracked e)
     (js_try_catch
        (case validate parseURL req of
           Reject c b \<Rightarrow> respond c (Json b)
         | Proceed targetUrl parsedUrl \<Rightarrow> render cfg e req targetUrl)
        (catch_block e req))"
  by (rule preserves_try_catch)
    (simp_all add: browser_tracked_respond browser_tracked_render browser_tracked_catch_block
      split: validation.splits)

lemma handler_releases:
  "fst (handler parseURL cfg e req init_state) = Inr () \<and>
   (Called NewPage \<in> set (trace (snd (handler parseURL cfg e req init_state))) \<and>
    fails e NewPage = None \<longrightarrow>
      Called ClosePage \<in> set (trace (snd (handler parseURL cfg e req init_state))) \<and>
      (\<forall>err. fails e ClosePage = Some err \<longrightarrow>
         Warned (''Warning: Could not close page: '' @ message err)
           \<in> set (trace (snd (handler parseURL cfg e req init_state))))) \<and>
   (Called Launch \<in> set (trace (snd (handler parseURL cfg e req init_state))) \<and>
    fails e Launch = None \<longrightarrow>
      Called CloseBrowser \<in> set (trace (snd (handler parseURL cfg e req init_state))) \<and>
      (\<forall>err. fails e CloseBrowser = Some err \<longrightarrow>
         Warned (''Warning: Could not close browser: '' @ message err)
           \<in> set (trace (snd (handler parseURL cfg e req init_state)))))"
proof (cases "req_method req = ''GET''")
  case False
  then show ?thesis by (simp add: handler_def respond_def init_state_def)
next
  case True
  let ?attempt = "js_try_catch
        (case validate parseURL req of
           Reject c b \<Rightarrow> respond c (Json b)
         | Proceed targetUrl parsedUrl \<Rightarrow> render cfg e req targetUrl)
        (catch_block e req)"
  obtain r1 s1 where a: "?attempt init_state = (r1, s1)" by (cases "?attempt init_state")
  have r1: "r1 = Inr ()" using attempt_returns[where parseURL=parseURL and req=req and cfg=cfg and e=e and s=init_state] a
    by simp
  have "page_tracked e init_state" by (simp add: page_tracked_def init_state_def)
  with attempt_tracks_page have p: "page_tracked e s1" using a by (rule preservesD)
  have "browser_tracked e init_state" by (simp add: browser_tracked_def init_state_def)
  with attempt_tracks_browser have b: "browser_tracked e s1" using a by (rule preservesD)
  have run: "handler parseURL cfg e req init_state =
     (Inr (),
      s1\<lparr>trace := trace s1 @
          (if page s1 then
             Called ClosePage #
               (case fails e ClosePage of
                  None \<Rightarrow> []
                | Some err \<Rightarrow> [Warned (''Warning: Could not close page: '' @ message err)])
           else []) @
          (if browser s1 then
             Called CloseBrowser #
               (case fails e CloseBrowser of
                  None \<Rightarrow> []
                | Some err \<Rightarrow> [Warned (''Warning: Could not close browser: '' @ message err)])
           else [])\<rparr>)"
    using True a r1 by (simp add: handler_get js_finally_def finally_block_run)
  show ?thesis
    unfolding run using p b
    by (auto simp: page_tracked_def browser_tracked_def split: option.splits)
qed

lemma handler_response_independent:
  "sent (snd (handler parseURL cfg
                (e\<lparr>fails := (fails e)(ClosePage := x, CloseBrowser := y)\<rparr>) req init_state)) =
   sent (snd (handler parseURL cfg e req init_state))"
proof (cases "req_method req = ''GET''")
  case False
  then show ?thesis by (simp add: handler_def)
next
  case True
  let ?attempt = "js_try_catch
        (case validate parseURL req of
           Reject c b \<Rightarrow> respond c (Json b)
         | Proceed targetUrl parsedUrl \<Rightarrow> render cfg e req targetUrl)
        (catch_block e req)"
  obtain r1 s1 where a: "?attempt init_state = (r1, s1)" by (cases "?attempt init_state")
  have "sent (snd (handler parseURL cfg e' req init_state)) = sent s1"
    if "e' = e \<or> e' = e\<lparr>fails := (fails e)(ClosePage := x, CloseBrowser := y)\<rparr>" for e'
    using that True a
    by (auto simp: handler_get js_finally_def finally_block_run render_cleanup_irrelevant
        catch_block_cleanup_irrelevant split: validation.splits)
  then show ?thesis by simp
qed

subsection \<open>The persistent server\<close>

lemma attempt_learn_returns:
  "fst (js_try_catch
          (case validate_learn parseURL req of
             Reject c b \<Rightarrow> respond c (Json b)
           | Proceed targetUrl parsedUrl \<Rightarrow> render_learn cfg e req targetUrl)
          (catch_block_learn e req) s) = Inr ()"
  by (simp add: js_try_catch_def catch_block_learn_run split: prod.splits sum.splits)

lemma attempt_learn_tracks_page:
  "preserves (page_tracked e)
     (js_try_catch
        (case validate_learn parseURL req of
           Reject c b \<Rightarrow> respond c (Json b)
         | Proceed targetUrl parsedUrl \<Rightarrow> render_learn cfg e req targetUrl)
        (catch_block_learn e req))"
  by (rule preserves_try_catch)
    (simp_all add: page_tracked_respond page_tracked_render_learn page_tracked_catch_block_learn
      split: validation.splits)

lemma learn_run:
  assumes a: "js_try_catch
        (case validate_learn parseURL req of
           Reject c b \<Rightarrow> respond c (Json b)
         | Proceed targetUrl parsedUrl \<Rightarrow> render_learn cfg e req targetUrl)
        (catch_block_learn e req) (s\<lparr>page := False\<rparr>) = (r1, s1)"
  shows "learn parseURL cfg e' req s =
     (case js_try_catch
        (case validate_learn parseURL req of
           Reject c b \<Rightarrow> respond c (Json b)
         | Proceed targetUrl parsedUrl \<Rightarrow> render_learn cfg e' req targetUrl)
        (catch_block_learn e' req) (s\<lparr>page := False\<rparr>) of
        (r, t) \<Rightarrow>
     (r,
      t\<lparr>trace := trace t @
          (if page t then
             Called ClosePage #
               (case fails e' ClosePage of
                  None \<Rightarrow> []
                | Some err \<Rightarrow> [Warned (''Warning: Could not close page: '' @ message err)])
           else [])\<rparr>))"
  by (simp add: learn_def js_bind_def declare_page_def js_finally_def close_page_run
      split: prod.splits)

lemma learn_releases:
  assumes "trace s = []"
  shows "fst (learn parseURL cfg e req s) = Inr () \<and>
   (Called NewPage \<in> set (trace (snd (learn parseURL cfg e req s))) \<and>
    fails e NewPage = None \<longrightarrow>
      Called ClosePage \<in> set (trace (snd (learn parseURL cfg e req s))) \<and>
      (\<forall>err. fails e ClosePage = Some err \<longrightarrow>
         Warned (''Warning: Could not close page: '' @ message err)
           \<in> set (trace (snd (learn parseURL cfg e req s)))))"
proof -
  let ?attempt = "js_try_catch
        (case validate_learn parseURL req of
           Reject c b \<Rightarrow> respond c (Json b)
         | Proceed targetUrl parsedUrl \<Rightarrow> render_learn cfg e req targetUrl)
        (catch_block_learn e req)"
  obtain r1 s1 where a: "?attempt (s\<lparr>page := False\<rparr>) = (r1, s1)"
    by (cases "?attempt (s\<lparr>page := False\<rparr>)")
  have r1: "r1 = Inr ()"
    using attempt_learn_returns[where parseURL=parseURL and req=req and cfg=cfg and e=e
        and s="s\<lparr>page := False\<rparr>"] a
    by simp
  have "page_tracked e (s\<lparr>page := False\<rparr>)" using assms by (simp add: page_tracked_def)
  with attempt_learn_tracks_page have p: "page_tracked e s1" using a by (rule preservesD)
  have run: "learn parseURL cfg e req s =
     (Inr (),
      s1\<lparr>trace := trace s1 @
          (if page s1 then
             Called ClosePage #
               (case fails e ClosePage of
                  None \<Rightarrow> []
                | Some err \<Rightarrow> [Warned (''Warning: Could not close page: '' @ message err)])
           else [])\<rparr>)"
    using learn_run[OF a, of e] a r1 by simp
  show ?thesis
    unfolding run using p
    by (auto simp: page_tracked_def split: option.splits)
qed

lemma learn_response_independent:
  "sent (snd (learn parseURL cfg
                (e\<lparr>fails := (fails e)(ClosePage := x, CloseBrowser := y)\<rparr>) req s)) =
   sent (snd (learn parseURL cfg e req s))"
proof -
  let ?attempt = "js_try_catch
        (case validate_learn parseURL req of
           Reject c b \<Rightarrow> respond c (Json b)
         | Proceed targetUrl parsedUrl \<Rightarrow> render_learn cfg e req targetUrl)
        (catch_block_learn e req)"
  obtain r1 s1 where a: "?attempt (s\<lparr>page := False\<rparr>) = (r1, s1)"
    by (cases "?attempt (s\<lparr>page := False\<rparr>)")
  have "sent (snd (learn parseURL cfg e' req s)) = sent s1"
    if "e' = e \<or> e' = e\<lparr>fails := (fails e)(ClosePage := x, CloseBrowser := y)\<rparr>" for e'
    using that a
    by (auto simp: learn_run[OF a] render_learn_cleanup_irrelevant
        catch_block_learn_cleanup_irrelevant split: validation.splits)
  then show ?thesis by simp
qed

subsection \<open>Every exit path releases what the run acquired\<close>

text \<open>
  Claim C4. A run of the serverless handler (a browser per invocation) never throws. If
  \<^verbatim>\<open>newPage\<close> returned a page, \<^verbatim>\<open>page.close()\<close> is called; if \<^verbatim>\<open>launch\<close> returned a browser,
  \<^verbatim>\<open>browser.close()\<close> is called, whatever \<^verbatim>\<open>page.close()\<close> did; a close that throws is
  logged with \<^verbatim>\<open>console.warn\<close>; and the response sent is the same whatever the two close
  calls do. A run of the \<^verbatim>\<open>/learn\<close> handler of the persistent server, started with an
  empty trace, never throws either, closes the page when \<^verbatim>\<open>newPage\<close> returned one, logs
  a close that throws, and sends the same response whatever the close does.
\<close>

theorem browser_handles_released_on_every_exit:
  assumes "trace s = []"
  shows
    "fst (handler parseURL cfg e req init_state) = Inr () \<and>
     (Called NewPage \<in> set (trace (snd (handler parseURL cfg e req init_state))) \<and>
      fails e NewPage = None \<longrightarrow>
        Called ClosePage \<in> set (trace (snd (handler parseURL cfg e req init_state))) \<and>
        (\<forall>err. fails e ClosePage = Some err \<longrightarrow>
           Warned (''Warning: Could not close page: '' @ message err)
             \<in> set (trace (snd (handler parseURL cfg e req init_state))))) \<and>
     (Called Launch \<in> set (trace (snd (handler parseURL cfg e req init_state))) \<and>
      fails e Launch = None \<longrightarrow>
        Called CloseBrowser \<in> set (trace (snd (handler parseURL cfg e req init_state))) \<and>
        (\<forall>err. fails e CloseBrowser = Some err \<longrightarrow>
           Warned (''Warning: Could not close browser: '' @ message err)
             \<in> set (trace (snd (handler parseURL cfg e req init_state))))) \<and>
     (\<forall>x y. sent (snd (handler parseURL cfg
                          (e\<lparr>fails := (fails e)(ClosePage := x, CloseBrowser := y)\<rparr>)
                          req init_state)) =
            sent (snd (handler parseURL cfg e req init_state))) \<and>
     fst (learn parseURL cfg e req s) = Inr () \<and>
     (Called NewPage \<in> set (trace (snd (learn parseURL cfg e req s))) \<and>
      fails e NewPage = None \<longrightarrow>
        Called ClosePage \<in> set (trace (snd (learn parseURL cfg e req s))) \<and>
        (\<forall>err. fails e ClosePage = Some err \<longrightarrow>
           Warned (''Warning: Could not close page: '' @ message err)
             \<in> set (trace (snd (learn parseURL cfg e req s))))) \<and>
     (\<forall>x y. sent (snd (learn parseURL cfg
                          (e\<lparr>fails := (fails e)(ClosePage := x, CloseBrowser := y)\<rparr>) req s)) =
            sent (snd (learn parseURL cfg e req s)))"
proof -
  note a = handler_releases[of parseURL cfg e req]
  have b: "\<forall>x y. sent (snd (handler parseURL cfg
                          (e\<lparr>fails := (fails e)(ClosePage := x, CloseBrowser := y)\<rparr>)
                          req init_state)) =
            sent (snd (handler parseURL cfg e req init_state))"
    by (simp add: handler_response_independent)
  note c = learn_releases[OF assms, of parseURL cfg e req]
  have d: "\<forall>x y. sent (snd (learn parseURL cfg
                          (e\<lparr>fails := (fails e)(ClosePage := x, CloseBrowser := y)\<rparr>) req s)) =
            sent (snd (learn parseURL cfg e req s))"
    by (simp add: learn_response_independent)
  from a b c d show ?thesis by blast
qed

theorem browser_handles_released_on_every_exit_witness:
  "Called ClosePage \<in>
     set (trace (snd (handler sample_parser default_config stormy_env
                        (request_of ''GET'' ''https://example.com'' []) init_state))) \<and>
   Warned ''Warning: Could not close page: Protocol error: Connection closed.'' \<in>
     set (trace (snd (handler sample_parser default_config stormy_env
                        (request_of ''GET'' ''https://example.com'' []) init_state))) \<and>
   Called CloseBrowser \<in>
     set (trace (snd (handler sample_parser default_config stormy_env
                        (request_of ''GET'' ''https://example.com'' []) init_state))) \<and>
   Called ClosePage \<in>
     set (trace (snd (learn sample_parser default_config stormy_env
                        (request_of ''GET'' ''https://example.com'' []) init_state)))"
proof -
  let ?req = "request_of ''GET'' ''https://example.com'' []"
  have t: "trace init_state = []" by (simp add: init_state_def)
  have f: "fails stormy_env NewPage = None" "fails stormy_env Launch = None"
    "fails stormy_env ClosePage = Some (Error ''Protocol error: Connection closed.'')"
    by (simp_all add: stormy_env_def)
  have m: "message (Error ''Protocol error: Connection closed.'') =
             ''Protocol error: Connection closed.''"
    by (simp add: Error_def)
  have h: "Called NewPage \<in> set (trace (snd (handler sample_parser default_config stormy_env
                                                ?req init_state)))"
    "Called Launch \<in> set (trace (snd (handler sample_parser default_config stormy_env
                                                ?req init_state)))"
    by (simp_all add: handler_eval_defs stormy_env_def)
  have l: "Called NewPage \<in> set (trace (snd (learn sample_parser default_config stormy_env
                                                ?req init_state)))"
    by (simp add: learn_eval_defs stormy_env_def)
  from browser_handles_released_on_every_exit[OF t, of sample_parser default_config stormy_env ?req]
    f h l m
  show ?thesis by (simp del: fun_upd_apply)
qed

subsection \<open>The response of the example run\<close>

lemma classify_navigation_timeout:
  "classify ''Navigation timeout of 25000 ms exceeded'' =
     (''Page load timeout. The website is taking too long to respond.'', 504)"
  by (simp add: classify_def startsWith_def)

lemma stormy_run_answers_504:
  "sent (snd (handler sample_parser default_config stormy_env
                (request_of ''GET'' ''https://example.com'' []) init_state)) =
     Some (504,
           Json [(''error'',
                  JString ''Page load timeout. The website is taking too long to respond.''),
                 (''url'', JString ''https://example.com''),
                 (''statusCode'', JNumber 504),
                 (''details'', JUndefined)])"
  by (simp add: handler_eval_defs stormy_env_def classify_navigation_timeout)

section \<open>Error classification of the browser handlers\<close>

text \<open>The chain of the serverless handler, read as a table: the first test that holds decides.\<close>

lemma classify_first_match:
  "includes_str m ''Navigation timeout'' \<Longrightarrow> snd (classify m) = 504"
  "\<not> includes_str m ''Navigation timeout'' \<Longrightarrow>
     includes_str m ''net::ERR_NAME_NOT_RESOLVED'' \<Longrightarrow> snd (classify m) = 404"
  "\<not> includes_str m ''Navigation timeout'' \<Longrightarrow>
     \<not> includes_str m ''net::ERR_NAME_NOT_RESOLVED'' \<Longrightarrow>
     includes_str m ''net::ERR_CONNECTION_REFUSED'' \<Longrightarrow> snd (classify m) = 503"
  "\<not> includes_str m ''Navigation timeout'' \<Longrightarrow>
     \<not> includes_str m ''net::ERR_NAME_NOT_RESOLVED'' \<Longrightarrow>
     \<not> includes_str m ''net::ERR_CONNECTION_REFUSED'' \<Longrightarrow>
     includes_str m ''net::ERR_ABORTED'' \<Longrightarrow> snd (classify m) = 403"
  "\<not> includes_str m ''Navigation timeout'' \<Longrightarrow>
     \<not> includes_str m ''net::ERR_NAME_NOT_RESOLVED'' \<Longrightarrow>
     \<not> includes_str m ''net::ERR_CONNECTION_REFUSED'' \<Longrightarrow>
     \<not> includes_str m ''net::ERR_ABORTED'' \<Longrightarrow>
     includes_str m ''Protocol error'' \<Longrightarrow> snd (classify m) = 502"
  "\<not> includes_str m ''Navigation timeout'' \<Longrightarrow>
     \<not> includes_str m ''net::ERR_NAME_NOT_RESOLVED'' \<Longrightarrow>
     \<not> includes_str m ''net::ERR_CONNECTION_REFUSED'' \<Longrightarrow>
     \<not> includes_str m ''net::ERR_ABORTED'' \<Longrightarrow>
     \<not> includes_str m ''Protocol error'' \<Longrightarrow>
     includes_str m ''Target page, context or browser has been closed'' \<Longrightarrow>
     snd (classify m) = 408"
  "\<not> includes_str m ''Navigation timeout'' \<Longrightarrow>
     \<not> includes_str m ''net::ERR_NAME_NOT_RESOLVED'' \<Longrightarrow>
     \<not> includes_str m ''net::ERR_CONNECTION_REFUSED'' \<Longrightarrow>
     \<not> includes_str m ''net::ERR_ABORTED'' \<Longrightarrow>
     \<not> includes_str m ''Protocol error'' \<Longrightarrow>
     \<not> includes_str m ''Target page, context or browser has been closed'' \<Longrightarrow>
     snd (classify m) = 500"
  by (simp_all add: classify_def)

lemma classify_total: "snd (classify m) \<in> {504, 404, 503, 403, 502, 408, 500}"
  by (simp add: classify_def)

text \<open>
  The chain of the persistent server has the first five rows and the default: it agrees
  on every message that the sixth row does not decide, and never answers 408.
\<close>

lemma classify_learn_agrees:
  "snd (classify m) \<noteq> 408 \<Longrightarrow> classify_learn m = classify m"
  by (simp add: classify_def classify_learn_def split: if_splits)

lemma classify_learn_total: "snd (classify_learn m) \<in> {504, 404, 503, 403, 502, 500}"
  by (simp add: classify_learn_def)

text \<open>
  A message that holds \<^verbatim>\<open>Protocol error\<close>, as the driver's messages for a call on a closed
  target do, is decided by the fifth row and never reaches the sixth.
\<close>

lemma classify_protocol_error_not_408:
  "includes_str m ''Protocol error'' \<Longrightarrow> snd (classify m) \<noteq> 408"
  by (simp add: classify_def)

lemma classify_disconnected:
  "classify ''Navigation failed because browser has disconnected!'' =
     (''Failed to learn from the requested website'', 500)"
  by (simp add: classify_def startsWith_def)

lemma classify_learn_disconnected:
  "classify_learn ''Navigation failed because browser has disconnected!'' =
     (''Failed to learn from the requested website'', 500)"
  by (simp add: classify_learn_def startsWith_def)

lemma classify_target_closed:
  "classify ''Protocol error (Page.navigate): Target closed.'' =
     (''Protocol error occurred while loading the page.'', 502)"
  by (simp add: classify_def startsWith_def)

lemma classify_learn_target_closed:
  "classify_learn ''Protocol error (Page.navigate): Target closed.'' =
     (''Protocol error occurred while loading the page.'', 502)"
  by (simp add: classify_learn_def startsWith_def)

text \<open>
  Claim C5, on a page or browser closed before navigation completed. When the browser
  goes away during \<^verbatim>\<open>page.goto\<close>, the driver rejects with
  \<^verbatim>\<open>Navigation failed because browser has disconnected!\<close>; when the page does, with
  \<^verbatim>\<open>Protocol error (Page.navigate): Target closed.\<close> Neither message is answered with
  status 408: the first matches no test of either chain and gets the default 500, the
  second is decided by the test for \<^verbatim>\<open>Protocol error\<close> and gets 502. The one test that
  leads to 408 is in the serverless handler, and it looks for a sentence that is in
  neither message. Both handlers answer a request whose navigation fails with the first
  message with status 500.
\<close>

theorem closed_browser_is_answered_500:
  "snd (classify ''Navigation failed because browser has disconnected!'') = 500 \<and>
   snd (classify_learn ''Navigation failed because browser has disconnected!'') = 500 \<and>
   snd (classify ''Protocol error (Page.navigate): Target closed.'') = 502 \<and>
   snd (classify_learn ''Protocol error (Page.navigate): Target closed.'') = 502 \<and>
   sent (snd (handler sample_parser default_config disconnected_env
                (request_of ''GET'' ''https://example.com'' []) init_state)) =
     Some (500,
           Json [(''error'', JString ''Failed to learn from the requested website''),
                 (''url'', JString ''https://example.com''),
                 (''statusCode'', JNumber 500),
                 (''details'', JUndefined)]) \<and>
   sent (snd (learn sample_parser default_config disconnected_env
                (request_of ''GET'' ''https://example.com'' []) init_state)) =
     Some (500,
           Json [(''error'', JString ''Failed to learn from the requested website''),
                 (''url'', JString ''https://example.com''),
                 (''statusCode'', JNumber 500),
                 (''details'', JUndefined)])"
proof -
  have a: "sent (snd (handler sample_parser default_config disconnected_env
                (request_of ''GET'' ''https://example.com'' []) init_state)) =
     Some (500,
           Json [(''error'', JString ''Failed to learn from the requested website''),
                 (''url'', JString ''https://example.com''),
                 (''statusCode'', JNumber 500),
                 (''details'', JUndefined)])"
    by (simp add: handler_eval_defs disconnected_env_def classify_disconnected)
  have b: "sent (snd (learn sample_parser default_config disconnected_env
                (request_of ''GET'' ''https://example.com'' []) init_state)) =
     Some (500,
           Json [(''error'', JString ''Failed to learn from the requested website''),
                 (''url'', JString ''https://example.com''),
                 (''statusCode'', JNumber 500),
                 (''details'', JUndefined)])"
    by (simp add: learn_eval_defs disconnected_env_def classify_learn_disconnected)
  from a b show ?thesis
    by (simp add: classify_disconnected classify_learn_disconnected classify_target_closed
        classify_learn_target_closed)
qed

section \<open>The header set a page navigates with\<close>

subsection \<open>The direct-fetch server overlays\<close>

lemma forward_keeps_names: "fst ` set hs \<subseteq> fst ` set (forward req n N hs)"
  by (auto simp: forward_def dom_update split: option.splits)

lemma forward_other: "k \<noteq> N \<Longrightarrow> map_of (forward req n N hs) k = map_of hs k"
  by (simp add: forward_def update_conv' split: option.splits)

lemma forward_sets:
  "headers req n = Some v \<Longrightarrow> v \<noteq> [] \<Longrightarrow> map_of (forward req n N hs) N = Some v"
  by (simp add: forward_def update_conv')

lemma requestHeaders_keeps_template:
  "fst ` set defaultRequestHeaders \<subseteq> fst ` set (requestHeaders req)"
  unfolding requestHeaders_def
  by (blast intro: forward_keeps_names[THEN subsetD])

lemma requestHeaders_forwards:
  "headers req ''cookie'' = Some v \<Longrightarrow> v \<noteq> [] \<Longrightarrow>
     map_of (requestHeaders req) ''Cookie'' = Some v"
  "headers req ''referer'' = Some v \<Longrightarrow> v \<noteq> [] \<Longrightarrow>
     map_of (requestHeaders req) ''Referer'' = Some v"
  "headers req ''authorization'' = Some v \<Longrightarrow> v \<noteq> [] \<Longrightarrow>
     map_of (requestHeaders req) ''Authorization'' = Some v"
  by (simp_all add: requestHeaders_def forward_other forward_sets)

subsection \<open>The browser handlers replace\<close>

text \<open>
  Claim C3, on a request that carries a cookie. Both browser handlers hand the template
  and each forwarded header to the page in separate \<^verbatim>\<open>setExtraHTTPHeaders\<close> calls, and
  the page keeps the object of the last call only. With the cookie \<^verbatim>\<open>session=abc123\<close> the
  page navigates with that one header, and no \<^verbatim>\<open>Accept\<close> or \<^verbatim>\<open>DNT\<close> of the template is
  left; with a cookie and a referer it navigates with the referer alone. The
  direct-fetch server, which assigns into one object, sends the template and the cookie.
\<close>

theorem forwarded_header_replaces_template:
  "trace (snd (handler sample_parser default_config calm_env
           (request_of ''GET'' ''https://example.com'' [(''cookie'', ''session=abc123'')])
           init_state)) =
     [Slept 300, Called ExecutablePath, Called Launch, Called NewPage,
      Called (SetViewport 1920 1080), Called (SetUserAgent userAgent),
      Called (SetExtraHTTPHeaders antiBotHeaders),
      Called (SetExtraHTTPHeaders [(''Cookie'', ''session=abc123'')]),
      Called (Goto ''https://example.com'' 25000), Called (WaitForTimeout 1000),
      Called Content, Called ClosePage, Called CloseBrowser] \<and>
   page_extra_headers
     (trace (snd (handler sample_parser default_config calm_env
        (request_of ''GET'' ''https://example.com'' [(''cookie'', ''session=abc123'')])
        init_state))) = [(''cookie'', ''session=abc123'')] \<and>
   page_extra_headers
     (trace (snd (learn sample_parser default_config calm_env
        (request_of ''GET'' ''https://example.com'' [(''cookie'', ''session=abc123'')])
        init_state))) = [(''cookie'', ''session=abc123'')] \<and>
   page_extra_headers
     (trace (snd (handler sample_parser default_config calm_env
        (request_of ''GET'' ''https://example.com''
           [(''cookie'', ''session=abc123''), (''referer'', ''https://outlet.example/'')])
        init_state))) = [(''referer'', ''https://outlet.example/'')] \<and>
   map_of (requestHeaders
     (request_of ''GET'' ''https://example.com'' [(''cookie'', ''session=abc123'')])) ''DNT'' =
     Some ''1'' \<and>
   map_of (requestHeaders
     (request_of ''GET'' ''https://example.com'' [(''cookie'', ''session=abc123'')])) ''Cookie'' =
     Some ''session=abc123''"
proof -
  have a: "trace (snd (handler sample_parser default_config calm_env
           (request_of ''GET'' ''https://example.com'' [(''cookie'', ''session=abc123'')])
           init_state)) =
     [Slept 300, Called ExecutablePath, Called Launch, Called NewPage,
      Called (SetViewport 1920 1080), Called (SetUserAgent userAgent),
      Called (SetExtraHTTPHeaders antiBotHeaders),
      Called (SetExtraHTTPHeaders [(''Cookie'', ''session=abc123'')]),
      Called (Goto ''https://example.com'' 25000), Called (WaitForTimeout 1000),
      Called Content, Called ClosePage, Called CloseBrowser]"
    by (simp add: handler_eval_defs calm_env_def)
  have b: "page_extra_headers
     (trace (snd (learn sample_parser default_config calm_env
        (request_of ''GET'' ''https://example.com'' [(''cookie'', ''session=abc123'')])
        init_state))) = [(''cookie'', ''session=abc123'')]"
    by (simp add: learn_eval_defs calm_env_def page_extra_headers_def setExtraHTTPHeaders_def
        toLowerASCII_def)
  have c: "page_extra_headers
     (trace (snd (handler sample_parser default_config calm_env
        (request_of ''GET'' ''https://example.com''
           [(''cookie'', ''session=abc123''), (''referer'', ''https://outlet.example/'')])
        init_state))) = [(''referer'', ''https://outlet.example/'')]"
    by (simp add: handler_eval_defs calm_env_def page_extra_headers_def setExtraHTTPHeaders_def
        toLowerASCII_def)
  have d: "map_of (requestHeaders
     (request_of ''GET'' ''https://example.com'' [(''cookie'', ''session=abc123'')])) ''DNT'' =
     Some ''1''"
    by (simp add: requestHeaders_def forward_def request_of_def defaultRequestHeaders_def
        update_conv')
  have e: "map_of (requestHeaders
     (request_of ''GET'' ''https://example.com'' [(''cookie'', ''session=abc123'')])) ''Cookie'' =
     Some ''session=abc123''"
    by (simp add: requestHeaders_def forward_def request_of_def update_conv')
  from a b c d e show ?thesis
    by (simp add: page_extra_headers_def setExtraHTTPHeaders_def toLowerASCII_def)
qed

section \<open>Percent-encoding round trip\<close>

lemma hexVal_hexDigit_upto: "list_all (\<lambda>n. hexVal (hexDigit n) = Some n) [0..<16]"
  by code_simp

lemma hexVal_hexDigit: "n < 16 \<Longrightarrow> hexVal (hexDigit n) = Some n"
proof -
  assume "n < 16"
  then have "n \<in> set [0..<16]" by simp
  with hexVal_hexDigit_upto show ?thesis unfolding list_all_iff by blast
qed

lemma unreserved_not_percent: "uriUnreserved c \<Longrightarrow> c \<noteq> CHR ''%''"
  by (auto simp: uriUnreserved_def)

lemma of_char_div_16: "(of_char c :: nat) div 16 < 16"
proof -
  have "(of_char c :: nat) < 256" by simp
  then show ?thesis by arith
qed

lemma decode_percentEncode:
  "decodeURIComponent (percentEncode c @ rest) = map_option ((#) c) (decodeURIComponent rest)"
  by (simp add: percentEncode_def hexVal_hexDigit of_char_div_16)

lemma decode_encode: "decodeURIComponent (encodeURIComponent s) = Some s"
proof (induction s)
  case Nil
  then show ?case by (simp add: encodeURIComponent_def)
next
  case (Cons c s)
  have step: "encodeURIComponent (c # s) =
                (if uriUnreserved c then [c] else percentEncode c) @ encodeURIComponent s"
    by (simp add: encodeURIComponent_def)
  show ?case
  proof (cases "uriUnreserved c")
    case True
    then have "c \<noteq> CHR ''%''" by (rule unreserved_not_percent)
    with True Cons.IH show ?thesis by (simp add: step)
  next
    case False
    with Cons.IH show ?thesis by (simp add: step decode_percentEncode)
  qed
qed

text \<open>
  The encoded text has none of the characters that delimit a query parameter, so the
  value of \<^verbatim>\<open>url\<close> is the whole of it.
\<close>

lemma hexDigit_plain_upto: "list_all (\<lambda>n. hexDigit n \<notin> set ''&=+#'') [0..<16]"
  by code_simp

lemma hexDigit_plain: "n < 16 \<Longrightarrow> hexDigit n \<notin> set ''&=+#''"
proof -
  assume "n < 16"
  then have "n \<in> set [0..<16]" by simp
  with hexDigit_plain_upto show ?thesis unfolding list_all_iff by blast
qed

lemma encode_has_no_delimiter: "set (encodeURIComponent s) \<inter> set ''&=+#'' = {}"
proof (induction s)
  case Nil
  then show ?case by (simp add: encodeURIComponent_def)
next
  case (Cons c s)
  have step: "encodeURIComponent (c # s) =
                (if uriUnreserved c then [c] else percentEncode c) @ encodeURIComponent s"
    by (simp add: encodeURIComponent_def)
  have "set (if uriUnreserved c then [c] else percentEncode c) \<inter> set ''&=+#'' = {}"
    using hexDigit_plain[of "(of_char c :: nat) div 16"] hexDigit_plain[of "(of_char c :: nat) mod 16"]
      of_char_div_16[of c]
    by (auto simp: percentEncode_def uriUnreserved_def)
  with Cons.IH show ?case unfolding step by auto
qed

section \<open>The URL rewriter, element by element\<close>

lemma elements_each:
  "elements (each tg a f n) =
     map (\<lambda>el. (fst el, if fst el = tg \<and> map_of (snd el) a \<noteq> None then f (snd el) else snd el))
       (elements n)"
proof (induction n)
  case (Element t as cs)
  have "concat (map elements (map (each tg a f) cs)) =
        concat (map (\<lambda>c. map (\<lambda>el. (fst el, if fst el = tg \<and> map_of (snd el) a \<noteq> None
                                              then f (snd el) else snd el)) (elements c)) cs)"
    using Element.IH by (simp cong: map_cong)
  then show ?case by (auto simp: map_concat comp_def)
next
  case (Text t)
  then show ?case by simp
qed

lemma selected_each_other:
  "tg \<noteq> tg' \<Longrightarrow> selected tg a (each tg' a' f n) = selected tg a n"
proof (induction n)
  case (Element t as cs)
  have "concat (map (selected tg a) (map (each tg' a' f) cs)) = concat (map (selected tg a) cs)"
    using Element by (simp cong: map_cong)
  with Element.prems show ?case by auto
next
  case (Text t)
  then show ?case by simp
qed

lemma patch_absent: "map_of as a = None \<Longrightarrow> patch resolve pb baseUrl a test as = as"
  by (simp add: patch_def)

lemma elements_pass:
  "elements (fst (pass resolve pb baseUrl tg a test label dw)) =
     map (\<lambda>el. (fst el, if fst el = tg then patch resolve pb baseUrl a test (snd el) else snd el))
       (elements (fst dw))"
proof -
  have "elements (fst (pass resolve pb baseUrl tg a test label dw)) =
          map (\<lambda>el. (fst el, if fst el = tg \<and> map_of (snd el) a \<noteq> None
                             then patch resolve pb baseUrl a test (snd el) else snd el))
            (elements (fst dw))"
    by (simp only: pass_def fst_conv elements_each)
  also have "\<dots> =
          map (\<lambda>el. (fst el, if fst el = tg then patch resolve pb baseUrl a test (snd el)
                             else snd el))
            (elements (fst dw))"
    by (rule map_cong) (auto simp: patch_absent)
  finally show ?thesis .
qed

lemma elements_rewriteUrls:
  "elements (fst (rewriteUrls resolve doc baseUrl req)) =
     map (rewritten resolve (proxyBase req) baseUrl) (elements doc)"
proof -
  have "elements (fst (rewriteUrls resolve doc baseUrl req)) =
        map (\<lambda>el. (fst el, if fst el = ''link''
                 then patch resolve (proxyBase req) baseUrl ''href'' present_not_data (snd el)
                 else snd el))
         (map (\<lambda>el. (fst el, if fst el = ''script''
                 then patch resolve (proxyBase req) baseUrl ''src'' present_not_data (snd el)
                 else snd el))
           (map (\<lambda>el. (fst el, if fst el = ''img''
                 then patch resolve (proxyBase req) baseUrl ''src'' present_not_data (snd el)
                 else snd el))
             (map (\<lambda>el. (fst el, if fst el = ''form''
                 then patch resolve (proxyBase req) baseUrl ''action'' present (snd el)
                 else snd el))
               (map (\<lambda>el. (fst el, if fst el = ''a''
                 then patch resolve (proxyBase req) baseUrl ''href'' present (snd el)
                 else snd el))
                 (elements doc)))))"
    by (simp only: rewriteUrls_def Let_def elements_pass fst_conv)
  also have "\<dots> = map (rewritten resolve (proxyBase req) baseUrl) (elements doc)"
    unfolding map_map by (rule map_cong) (simp_all add: rewritten_def)
  finally show ?thesis .
qed

lemma warnings_pass:
  "snd (pass resolve pb baseUrl tg a test label dw) =
     snd dw @ concat (map (patch_warning resolve baseUrl a test label) (selected tg a (fst dw)))"
  by (simp add: pass_def)

lemma fst_pass:
  "fst (pass resolve pb baseUrl tg a test label dw) =
     each tg a (patch resolve pb baseUrl a test) (fst dw)"
  by (simp add: pass_def)

lemma warnings_rewriteUrls:
  "snd (rewriteUrls resolve doc baseUrl req) =
     concat (map (patch_warning resolve baseUrl ''href'' present ''Invalid URL in link: '')
               (selected ''a'' ''href'' doc)) @
     concat (map (patch_warning resolve baseUrl ''action'' present ''Invalid URL in form action: '')
               (selected ''form'' ''action'' doc)) @
     concat (map (patch_warning resolve baseUrl ''src'' present_not_data ''Invalid URL in image src: '')
               (selected ''img'' ''src'' doc)) @
     concat (map (patch_warning resolve baseUrl ''src'' present_not_data ''Invalid URL in script src: '')
               (selected ''script'' ''src'' doc)) @
     concat (map (patch_warning resolve baseUrl ''href'' present_not_data ''Invalid URL in link href: '')
               (selected ''link'' ''href'' doc))"
  by (simp add: rewriteUrls_def Let_def warnings_pass fst_pass selected_each_other)

text \<open>The rewrite keeps the shape of the document: no element is added, dropped or renamed.\<close>

lemma rewriteUrls_keeps_tags:
  "map fst (elements (fst (rewriteUrls resolve doc baseUrl req))) = map fst (elements doc)"
  by (simp add: elements_rewriteUrls rewritten_def comp_def)

lemma set_selected:
  "set (selected tg a n) = {as. (tg, as) \<in> set (elements n) \<and> map_of as a \<noteq> None}"
proof (induction n)
  case (Element t as cs)
  have "(\<Union>c\<in>set cs. set (selected tg a c)) =
        (\<Union>c\<in>set cs. {as. (tg, as) \<in> set (elements c) \<and> map_of as a \<noteq> None})"
    using Element.IH by simp
  then show ?case by auto
next
  case (Text t)
  then show ?case by simp
qed

lemma patch_leaves_unresolved:
  assumes "map_of as a = Some v" and "resolve v baseUrl = None"
  shows "patch resolve pb baseUrl a test as = as"
  using assms by (simp add: patch_def)

section \<open>What a rewritten attribute holds\<close>

text \<open>
  Claim C6. Take an element of the fetched document with a qualifying attribute: the
  \<^verbatim>\<open>href\<close> of an \<^verbatim>\<open>a\<close> or the \<^verbatim>\<open>action\<close> of a \<^verbatim>\<open>form\<close> with a non-empty value, or the
  \<^verbatim>\<open>src\<close> of an \<^verbatim>\<open>img\<close> or \<^verbatim>\<open>script\<close> or the \<^verbatim>\<open>href\<close> of a \<^verbatim>\<open>link\<close> with a non-empty
  value that does not start with \<^verbatim>\<open>data:\<close>. If the value resolves against the URL of the
  page to the absolute URL \<open>absoluteUrl\<close>, then after the rewrite the same element, under
  the same tag and with its other attributes as they were, holds exactly
  \<^verbatim>\<open>proxyBase\<close> followed by \<^verbatim>\<open>encodeURIComponent(absoluteUrl)\<close>; decoding that encoded
  text gives \<open>absoluteUrl\<close> back, and the encoded text has no character that would end
  the query parameter.
\<close>

theorem rewritten_url_round_trip:
  assumes "i < length (elements doc)" and "elements doc ! i = (t, as)"
    and "map_of as a = Some v"
    and "(t = ''a'' \<and> a = ''href'' \<and> v \<noteq> []) \<or>
         (t = ''form'' \<and> a = ''action'' \<and> v \<noteq> []) \<or>
         (t = ''img'' \<and> a = ''src'' \<and> v \<noteq> [] \<and> \<not> startsWith v ''data:'') \<or>
         (t = ''script'' \<and> a = ''src'' \<and> v \<noteq> [] \<and> \<not> startsWith v ''data:'') \<or>
         (t = ''link'' \<and> a = ''href'' \<and> v \<noteq> [] \<and> \<not> startsWith v ''data:'')"
    and "resolve v baseUrl = Some absoluteUrl"
  shows "(\<exists>as'. elements (fst (rewriteUrls resolve doc baseUrl req)) ! i = (t, as') \<and>
            map_of as' a = Some (proxyBase req @ encodeURIComponent absoluteUrl) \<and>
            (\<forall>b. b \<noteq> a \<longrightarrow> map_of as' b = map_of as b)) \<and>
         decodeURIComponent (encodeURIComponent absoluteUrl) = Some absoluteUrl \<and>
         set (encodeURIComponent absoluteUrl) \<inter> set ''&=+#'' = {}"
proof -
  let ?new = "AList.update a (proxyBase req @ encodeURIComponent absoluteUrl) as"
  have el: "elements (fst (rewriteUrls resolve doc baseUrl req)) ! i =
              rewritten resolve (proxyBase req) baseUrl (t, as)"
    using assms(1,2) by (simp add: elements_rewriteUrls)
  have "rewritten resolve (proxyBase req) baseUrl (t, as) = (t, ?new)"
    using assms(4)
  proof (elim disjE conjE)
    assume "t = ''a''" "a = ''href''" "v \<noteq> []"
    then show ?thesis
      using assms(3,5) by (simp add: rewritten_def present_def patch_def)
  next
    assume "t = ''form''" "a = ''action''" "v \<noteq> []"
    then show ?thesis
      using assms(3,5) by (simp add: rewritten_def present_def patch_def)
  next
    assume "t = ''img''" "a = ''src''" "v \<noteq> []" "\<not> startsWith v ''data:''"
    then show ?thesis
      using assms(3,5) by (simp add: rewritten_def present_not_data_def patch_def)
  next
    assume "t = ''script''" "a = ''src''" "v \<noteq> []" "\<not> startsWith v ''data:''"
    then show ?thesis
      using assms(3,5) by (simp add: rewritten_def present_not_data_def patch_def)
  next
    assume "t = ''link''" "a = ''href''" "v \<noteq> []" "\<not> startsWith v ''data:''"
    then show ?thesis
      using assms(3,5) by (simp add: rewritten_def present_not_data_def patch_def)
  qed
  with el have "elements (fst (rewriteUrls resolve doc baseUrl req)) ! i = (t, ?new)" by simp
  moreover have "map_of ?new a = Some (proxyBase req @ encodeURIComponent absoluteUrl)"
    by (simp add: update_conv')
  moreover have "\<forall>b. b \<noteq> a \<longrightarrow> map_of ?new b = map_of as b"
    by (simp add: update_conv')
  ultimately have "\<exists>as'. elements (fst (rewriteUrls resolve doc baseUrl req)) ! i = (t, as') \<and>
            map_of as' a = Some (proxyBase req @ encodeURIComponent absoluteUrl) \<and>
            (\<forall>b. b \<noteq> a \<longrightarrow> map_of as' b = map_of as b)"
    by blast
  with decode_encode[of absoluteUrl] encode_has_no_delimiter[of absoluteUrl]
  show ?thesis by (intro conjI)
qed

lemma encode_about: "encodeURIComponent ''https://example.com/about'' = ''https%3A%2F%2Fexample.com%2Fabout''"
  by (simp add: encodeURIComponent_def uriUnreserved_def percentEncode_def hexDigit_def)

theorem rewritten_url_round_trip_witness:
  "(\<exists>as'. elements (fst (rewriteUrls sample_resolver
              (Element ''body'' [] [Element ''a'' [(''href'', ''/about''), (''class'', ''nav'')]
                                      [Text ''About'']])
              example_com proxy_request)) ! 1 = (''a'', as') \<and>
          map_of as' ''href'' =
            Some ''https://outletbackend.onrender.com/proxy?url=https%3A%2F%2Fexample.com%2Fabout'' \<and>
          map_of as' ''class'' = Some ''nav'') \<and>
   decodeURIComponent ''https%3A%2F%2Fexample.com%2Fabout'' = Some ''https://example.com/about''"
proof -
  let ?doc = "Element ''body'' [] [Element ''a'' [(''href'', ''/about''), (''class'', ''nav'')]
                                      [Text ''About'']]"
  have h: "1 < length (elements ?doc)"
    "elements ?doc ! 1 = (''a'', [(''href'', ''/about''), (''class'', ''nav'')])"
    "map_of [(''href'', ''/about''), (''class'', ''nav'')] ''href'' = Some ''/about''"
    "(''a'' = ''a'' \<and> ''href'' = ''href'' \<and> ''/about'' \<noteq> []) \<or>
         (''a'' = ''form'' \<and> ''href'' = ''action'' \<and> ''/about'' \<noteq> []) \<or>
         (''a'' = ''img'' \<and> ''href'' = ''src'' \<and> ''/about'' \<noteq> [] \<and> \<not> startsWith ''/about'' ''data:'') \<or>
         (''a'' = ''script'' \<and> ''href'' = ''src'' \<and> ''/about'' \<noteq> [] \<and> \<not> startsWith ''/about'' ''data:'') \<or>
         (''a'' = ''link'' \<and> ''href'' = ''href'' \<and> ''/about'' \<noteq> [] \<and> \<not> startsWith ''/about'' ''data:'')"
    "sample_resolver ''/about'' example_com = Some ''https://example.com/about''"
    by (simp_all add: sample_resolver_def example_com_def)
  have pb: "proxyBase proxy_request = ''https://outletbackend.onrender.com/proxy?url=''"
    by (simp add: proxyBase_def proxy_request_def)
  from rewritten_url_round_trip[of 1 ?doc "''a''" "[(''href'', ''/about''), (''class'', ''nav'')]"
      "''href''" "''/about''" sample_resolver example_com "''https://example.com/about''"
      proxy_request, OF h]
  show ?thesis
    unfolding pb encode_about by (auto simp del: elements.simps)
qed

section \<open>Values the rewriter leaves alone\<close>

text \<open>
  In the direct-fetch server a value that does not resolve stays as it is, the warning
  is logged, and every other element is rewritten as usual: the function returns a
  document whatever the attribute values are.
\<close>

lemma warning_logged:
  assumes "as \<in> set (selected tg a doc)" and "map_of as a = Some v" and "test v"
    and "resolve v baseUrl = None"
  shows "label @ v \<in> set (concat (map (patch_warning resolve baseUrl a test label)
                                   (selected tg a doc)))"
proof -
  have "patch_warning resolve baseUrl a test label as = [label @ v]"
    using assms(2,3,4) by (simp add: patch_warning_def)
  with assms(1) show ?thesis by force
qed

lemma rewriteUrls_leaves_malformed:
  assumes "i < length (elements doc)" and "elements doc ! i = (t, as)"
    and "map_of as a = Some v" and "v \<noteq> []"
    and "(t = ''a'' \<and> a = ''href'' \<and> label = ''Invalid URL in link: '') \<or>
         (t = ''form'' \<and> a = ''action'' \<and> label = ''Invalid URL in form action: '')"
    and "resolve v baseUrl = None"
  shows "elements (fst (rewriteUrls resolve doc baseUrl req)) ! i = (t, as) \<and>
         label @ v \<in> set (snd (rewriteUrls resolve doc baseUrl req))"
proof -
  have el: "elements (fst (rewriteUrls resolve doc baseUrl req)) ! i =
              rewritten resolve (proxyBase req) baseUrl (t, as)"
    using assms(1,2) by (simp add: elements_rewriteUrls)
  have p: "patch resolve (proxyBase req) baseUrl a present as = as"
    using assms(3,6) by (rule patch_leaves_unresolved)
  have "(t, as) \<in> set (elements doc)" using assms(1,2) by (metis nth_mem)
  then have sel: "as \<in> set (selected t a doc)" using assms(3) by (simp add: set_selected)
  have pr: "present v" using assms(4) by (simp add: present_def)
  note w = warning_logged[where test=present and resolve=resolve and baseUrl=baseUrl
      and label=label, OF sel assms(3) pr assms(6)]
  from assms(5) show ?thesis
  proof
    assume c: "t = ''a'' \<and> a = ''href'' \<and> label = ''Invalid URL in link: ''"
    with p have "rewritten resolve (proxyBase req) baseUrl (t, as) = (t, as)"
      by (simp add: rewritten_def)
    moreover from c w have "label @ v \<in> set (snd (rewriteUrls resolve doc baseUrl req))"
      unfolding warnings_rewriteUrls set_append by blast
    ultimately show ?thesis using el by simp
  next
    assume c: "t = ''form'' \<and> a = ''action'' \<and> label = ''Invalid URL in form action: ''"
    with p have "rewritten resolve (proxyBase req) baseUrl (t, as) = (t, as)"
      by (simp add: rewritten_def)
    moreover from c w have "label @ v \<in> set (snd (rewriteUrls resolve doc baseUrl req))"
      unfolding warnings_rewriteUrls set_append by blast
    ultimately show ?thesis using el by simp
  qed
qed

text \<open>
  A \<^verbatim>\<open>src\<close> of an image or script and the \<^verbatim>\<open>href\<close> of a stylesheet link that start with
  \<^verbatim>\<open>data:\<close> are skipped by their passes.
\<close>

lemma data_uri_source_untouched:
  assumes "i < length (elements doc)" and "elements doc ! i = (t, as)"
    and "t = ''img'' \<or> t = ''script'' \<or> t = ''link''"
    and "\<forall>v. map_of as (if t = ''link'' then ''href'' else ''src'') = Some v \<longrightarrow>
             startsWith v ''data:''"
  shows "elements (fst (rewriteUrls resolve doc baseUrl req)) ! i = (t, as)"
proof -
  have el: "elements (fst (rewriteUrls resolve doc baseUrl req)) ! i =
              rewritten resolve (proxyBase req) baseUrl (t, as)"
    using assms(1,2) by (simp add: elements_rewriteUrls)
  have "rewritten resolve (proxyBase req) baseUrl (t, as) = (t, as)"
    using assms(3,4)
    by (auto simp: rewritten_def patch_def present_not_data_def split: option.splits)
  with el show ?thesis by simp
qed

lemma encode_data_uri:
  "encodeURIComponent ''data:text/html,hi'' = ''data%3Atext%2Fhtml%2Chi''"
  by (simp add: encodeURIComponent_def uriUnreserved_def percentEncode_def hexDigit_def)

lemmas rewrite_eval_defs =
  rewriteUrls_def pass_def patch_def patch_warning_def present_def present_not_data_def
  startsWith_def sample_resolver_def example_com_def Let_def

lemma proxyBase_proxy_request:
  "proxyBase proxy_request = ''https://outletbackend.onrender.com/proxy?url=''"
  by (simp add: proxyBase_def proxy_request_def)

text \<open>
  Claim C7, on a link and a form whose value is a \<^verbatim>\<open>data:\<close> URL. The passes over
  \<^verbatim>\<open>a[href]\<close> and \<^verbatim>\<open>form[action]\<close> test only that the value is non-empty: the value
  \<^verbatim>\<open>data:text/html,hi\<close> is replaced by the proxy URL. The pass over \<^verbatim>\<open>img[src]\<close>, which
  tests the prefix, leaves the same value as it is.
\<close>

theorem data_uri_link_is_rewritten:
  "fst (rewriteUrls sample_resolver (Element ''a'' [(''href'', ''data:text/html,hi'')] [])
          example_com proxy_request) =
     Element ''a''
       [(''href'', ''https://outletbackend.onrender.com/proxy?url=data%3Atext%2Fhtml%2Chi'')] [] \<and>
   fst (rewriteUrls sample_resolver (Element ''form'' [(''action'', ''data:text/html,hi'')] [])
          example_com proxy_request) =
     Element ''form''
       [(''action'', ''https://outletbackend.onrender.com/proxy?url=data%3Atext%2Fhtml%2Chi'')] [] \<and>
   fst (rewriteUrls sample_resolver (Element ''img'' [(''src'', ''data:text/html,hi'')] [])
          example_com proxy_request) =
     Element ''img'' [(''src'', ''data:text/html,hi'')] []"
  by (simp add: rewrite_eval_defs proxyBase_proxy_request encode_data_uri)

section \<open>The rewriter of the first proxy server\<close>

lemma rewriteUrls_outlet_backend_throws:
  "rewriteUrls_outlet_backend resolve None doc baseUrl = Inl ReferenceError_req"
  by (simp add: rewriteUrls_outlet_backend_def)

lemma classify_outlet_backend_default:
  "classify_outlet_backend ReferenceError_req = 500"
  "classify_outlet_backend TypeError_invalid_url = 500"
  by (simp_all add: classify_outlet_backend_def ReferenceError_req_def TypeError_invalid_url_def
      Error_def)

text \<open>
  Claim C8, on a document with one unparsable link. In \<^verbatim>\<open>outlet_backend/server.js\<close>
  the rewrite does not return: its first statement reads the unbound \<^verbatim>\<open>req\<close> and throws,
  and the handler's \<^verbatim>\<open>catch\<close> turns that into status 500. Were \<^verbatim>\<open>req\<close> bound, the pass
  over the links, which has no \<^verbatim>\<open>try\<close>, would throw on the value \<^verbatim>\<open>http://[\<close>, with
  the same status. The direct-fetch server returns the document with that value
  as it was, the other link rewritten, and one warning.
\<close>

theorem first_proxy_rewrite_throws:
  "rewriteUrls_outlet_backend sample_resolver None
     (Element ''body'' [] [Element ''a'' [(''href'', ''http://['')] [],
                           Element ''a'' [(''href'', ''/about'')] []])
     example_com = Inl ReferenceError_req \<and>
   classify_outlet_backend ReferenceError_req = 500 \<and>
   rewriteUrls_outlet_backend sample_resolver (Some proxy_request)
     (Element ''body'' [] [Element ''a'' [(''href'', ''http://['')] [],
                           Element ''a'' [(''href'', ''/about'')] []])
     example_com = Inl TypeError_invalid_url \<and>
   classify_outlet_backend TypeError_invalid_url = 500 \<and>
   rewriteUrls sample_resolver
     (Element ''body'' [] [Element ''a'' [(''href'', ''http://['')] [],
                           Element ''a'' [(''href'', ''/about'')] []])
     example_com proxy_request =
     (Element ''body'' []
        [Element ''a'' [(''href'', ''http://['')] [],
         Element ''a''
           [(''href'',
             ''https://outletbackend.onrender.com/proxy?url=https%3A%2F%2Fexample.com%2Fabout'')]
           []],
      [''Invalid URL in link: http://[''])"
proof -
  have a: "rewriteUrls_outlet_backend sample_resolver (Some proxy_request)
     (Element ''body'' [] [Element ''a'' [(''href'', ''http://['')] [],
                           Element ''a'' [(''href'', ''/about'')] []])
     example_com = Inl TypeError_invalid_url"
    by (simp add: rewriteUrls_outlet_backend_def pass_unguarded_def throws_def present_def
        sample_resolver_def)
  have b: "rewriteUrls sample_resolver
     (Element ''body'' [] [Element ''a'' [(''href'', ''http://['')] [],
                           Element ''a'' [(''href'', ''/about'')] []])
     example_com proxy_request =
     (Element ''body'' []
        [Element ''a'' [(''href'', ''http://['')] [],
         Element ''a''
           [(''href'',
             ''https://outletbackend.onrender.com/proxy?url=https%3A%2F%2Fexample.com%2Fabout'')]
           []],
      [''Invalid URL in link: http://[''])"
    by (simp add: rewrite_eval_defs proxyBase_proxy_request encode_about)
  from a b show ?thesis
    by (simp add: rewriteUrls_outlet_backend_throws classify_outlet_backend_default)
qed

end
